theory Spec2Isabelle
  imports Main "HOL-Library.Sublist"
begin

section \<open>Data model (types.ts)\<close>

text \<open>
  The interfaces of \<^verbatim>\<open>types.ts\<close> become records. A field declared with \<^verbatim>\<open>?\<close> is an
  \<open>option\<close>: \<open>None\<close> is JavaScript's \<^verbatim>\<open>undefined\<close>. The fields of \<^verbatim>\<open>PushOptions\<close> carry
  the suffix \<open>_opt\<close> where the source's name is already taken by \<^verbatim>\<open>RemoteConfig\<close> or
  by the command \<^verbatim>\<open>remote\<close>. \<^verbatim>\<open>times_to_loop\<close> is only stored by this core, never
  computed with, and is modelled as an integer.
\<close>

record RemoteConfig =
  name :: string
  url :: string
  branch :: string

record RepomirrorConfig =
  source_repo :: string
  target_repo :: string
  transformation_instructions :: string
  config_version :: string
  default_remote :: "string option"
  auto_sync :: "bool option"
  remotes :: "RemoteConfig list option"
  target_remote :: "string option"
  times_to_loop :: "int option"

record SyncOptions =
  autoPush :: "bool option"

record PushOptions =
  remote_opt :: "string option"
  branch_opt :: "string option"
  all_opt :: "bool option"
  dryRun :: "bool option"

record PullOptions =
  sourceOnly :: "bool option"
  syncAfter :: "bool option"
  check :: "bool option"

section \<open>JavaScript truthiness and optional chaining\<close>

text \<open>
  \<^verbatim>\<open>options?.f\<close> on an optional argument: \<^verbatim>\<open>undefined\<close> when the argument is missing.
\<close>

definition opt_chain :: "'o option \<Rightarrow> ('o \<Rightarrow> 'a option) \<Rightarrow> 'a option" where
  "opt_chain options f = (case options of None \<Rightarrow> None | Some opts \<Rightarrow> f opts)"

text \<open>A boolean flag is truthy only when it is present and \<^verbatim>\<open>true\<close>.\<close>

definition truthy :: "bool option \<Rightarrow> bool" where
  "truthy b = (case b of Some True \<Rightarrow> True | _ \<Rightarrow> False)"

text \<open>
  A string is truthy when it is present and not the empty string; \<^verbatim>\<open>a || b\<close> yields
  \<^verbatim>\<open>a\<close> when \<^verbatim>\<open>a\<close> is truthy and \<^verbatim>\<open>b\<close> otherwise.
\<close>

definition truthy_str :: "string option \<Rightarrow> bool" where
  "truthy_str a = (case a of None \<Rightarrow> False | Some v \<Rightarrow> v \<noteq> [])"

definition js_or :: "string option \<Rightarrow> string option \<Rightarrow> string option" where
  "js_or a b = (if truthy_str a then a else b)"

definition js_or_else :: "string option \<Rightarrow> string \<Rightarrow> string" where
  "js_or_else a d = (case a of None \<Rightarrow> d | Some v \<Rightarrow> if v \<noteq> [] then v else d)"

text \<open>\<^verbatim>\<open>args[i]\<close> on an array: \<^verbatim>\<open>undefined\<close> beyond the end.\<close>

definition arg_at :: "'a list \<Rightarrow> nat \<Rightarrow> 'a option" where
  "arg_at args i = (if i < length args then Some (args ! i) else None)"

text \<open>\<^verbatim>\<open>Array.prototype.findIndex\<close>: the first index whose element passes, \<open>None\<close> for -1.\<close>

fun findIndex :: "('a \<Rightarrow> bool) \<Rightarrow> 'a list \<Rightarrow> nat option" where
  "findIndex P [] = None"
| "findIndex P (x # xs) = (if P x then Some 0 else map_option Suc (findIndex P xs))"

section \<open>The environment: file system, subprocesses, console\<close>

text \<open>
  A path is the list of its components below the root. The file system maps a path to
  a file with its content or to a directory; the root always is a directory. An
  operation on a path only succeeds when every proper ancestor is a directory.
  Permissions and symbolic links are not modelled.
\<close>

type_synonym path = "string list"

datatype entry = File string | Directory

type_synonym filesystem = "path \<Rightarrow> entry option"

datatype fs_error = ENOENT | EISDIR | EEXIST | ENOTDIR

definition is_dir :: "filesystem \<Rightarrow> path \<Rightarrow> bool" where
  "is_dir files p = (p = [] \<or> files p = Some Directory)"

definition is_file :: "filesystem \<Rightarrow> path \<Rightarrow> bool" where
  "is_file files p = (p \<noteq> [] \<and> (case files p of Some (File c) \<Rightarrow> True | _ \<Rightarrow> False))"

definition ancestors_ok :: "filesystem \<Rightarrow> path \<Rightarrow> bool" where
  "ancestors_ok files p = list_all (is_dir files) (prefixes (butlast p))"

text \<open>\<^verbatim>\<open>fs.readFile(p, "utf-8")\<close>\<close>

definition fs_readFile :: "filesystem \<Rightarrow> path \<Rightarrow> fs_error + string" where
  "fs_readFile files p =
     (if is_dir files p then Inl EISDIR
      else if \<not> ancestors_ok files p then Inl ENOENT
      else case files p of
             Some (File c) \<Rightarrow> Inr c
           | _ \<Rightarrow> Inl ENOENT)"

text \<open>\<^verbatim>\<open>fs.access(p)\<close>: does the path exist?\<close>

definition fs_access :: "filesystem \<Rightarrow> path \<Rightarrow> bool" where
  "fs_access files p = (ancestors_ok files p \<and> (is_dir files p \<or> is_file files p))"

text \<open>
  \<^verbatim>\<open>fs.mkdir(p, { recursive: true })\<close>: creates the directory and every missing
  ancestor; succeeds without change when the directory is there already.
\<close>

definition fs_mkdir_recursive :: "filesystem \<Rightarrow> path \<Rightarrow> fs_error + filesystem" where
  "fs_mkdir_recursive files p =
     (if is_file files p then Inl EEXIST
      else if list_ex (is_file files) (prefixes (butlast p)) then Inl ENOTDIR
      else Inr (\<lambda>q. if prefix q p then Some Directory else files q))"

text \<open>\<^verbatim>\<open>fs.writeFile(p, content, "utf-8")\<close>: creates the file or replaces its content.\<close>

definition fs_writeFile :: "filesystem \<Rightarrow> path \<Rightarrow> string \<Rightarrow> fs_error + filesystem" where
  "fs_writeFile files p content =
     (if is_dir files p then Inl EISDIR
      else if \<not> ancestors_ok files p then Inl ENOENT
      else Inr (files(p \<mapsto> File content)))"

definition fs_error_message :: "fs_error \<Rightarrow> string" where
  "fs_error_message e =
     (case e of ENOENT \<Rightarrow> ''ENOENT'' | EISDIR \<Rightarrow> ''EISDIR''
              | EEXIST \<Rightarrow> ''EEXIST'' | ENOTDIR \<Rightarrow> ''ENOTDIR'')"

text \<open>
  The subprocesses the program starts with \<^verbatim>\<open>execa\<close>: \<^verbatim>\<open>git\<close> with its arguments
  and the working directory taken from the configuration, and \<^verbatim>\<open>bash\<close> with a
  script and the working directory of the process. A subprocess ends well with its
  standard output, or fails with the signal that ended it (if any) and a message.
\<close>

datatype command =
    Git "string list" string
  | Bash path path

datatype proc_result =
    ProcOk string
  | ProcErr "string option" string

text \<open>
  What the program writes to the console, one constructor per message of the source
  (colours left out), with the values the message interpolates.
\<close>

datatype message =
    ConfigNotFound
  | UsageRemoteAdd
  | UpdatedRemote string
  | AddedRemote string
  | NoRemotesListed
  | ConfiguredRemotes
  | RemoteLine string string string
  | UsageRemoteRemove
  | RemoteNotFoundWarn string
  | RemovedRemote string
  | UnknownAction string
  | AvailableActions
  | NoRemotesConfigured
  | PushingAll
  | PushingTo string string
  | PushedTo string
  | FailedPushTo string string
  | RemoteNotFound string
  | FailedPush string
  | DryRunWouldPush string string
  | SyncScriptNotFound
  | RunningSync
  | SyncCompleted
  | SyncStopped
  | SyncFailed string
  | RalphScriptNotFound
  | RunningRalph
  | PressCtrlC
  | ContinuousSyncStopped
  | ContinuousSyncFailed string
  | CheckingSource
  | Stdout string
  | FailedCheck string
  | PullingSource
  | SourceUpdated
  | FailedPull string

text \<open>
  The effects of a command, in the order they happen: console output, subprocesses
  run (with how each ended), signal handlers installed and removed, and the file
  system calls that change the disk. What a signal handler itself prints is not part
  of the trace: a signal shows in the result of the subprocess.
\<close>

datatype event =
    Print message
  | PrintErr message
  | Exec command proc_result
  | HandlersOn
  | HandlersOff
  | FsMkdir path
  | FsWriteFile path string
  | FsRename path path

text \<open>
  What is outside the program: the working directory of the process, \<^verbatim>\<open>path.resolve\<close>,
  the yaml library (\<open>yaml_parse\<close> is \<open>None\<close> where \<^verbatim>\<open>yaml.parse\<close> throws or yields
  \<^verbatim>\<open>null\<close>), and \<^verbatim>\<open>execa\<close>: a subprocess sees the file system and the rest of the
  world \<open>'x\<close> (remote servers, other working copies) and may change both.
\<close>

record 'x env =
  cwd :: path
  resolve :: "path \<Rightarrow> string \<Rightarrow> path"
  yaml_stringify :: "RepomirrorConfig \<Rightarrow> string"
  yaml_parse :: "string \<Rightarrow> RepomirrorConfig option"
  execa :: "command \<Rightarrow> filesystem \<times> 'x \<Rightarrow> proc_result \<times> filesystem \<times> 'x"

record 'x state =
  fs :: filesystem
  ext :: 'x
  trace :: "event list"

text \<open>
  How a command ends: it returns (the process then ends with status 0), it calls
  \<^verbatim>\<open>process.exit(n)\<close>, or an exception leaves it.
\<close>

datatype outcome = Returned | Exited nat | Threw string

definition exit_status :: "outcome \<Rightarrow> nat" where
  "exit_status out = (case out of Returned \<Rightarrow> 0 | Exited n \<Rightarrow> n | Threw m \<Rightarrow> 1)"

definition emit :: "event \<Rightarrow> 'x state \<Rightarrow> 'x state" where
  "emit e s = s\<lparr>trace := trace s @ [e]\<rparr>"

definition run :: "'x env \<Rightarrow> command \<Rightarrow> 'x state \<Rightarrow> proc_result \<times> 'x state" where
  "run env c s =
     (case execa env c (fs s, ext s) of
        (r, files', x') \<Rightarrow> (r, s\<lparr>fs := files', ext := x', trace := trace s @ [Exec c r]\<rparr>))"

definition mkdir_recursive :: "path \<Rightarrow> 'x state \<Rightarrow> fs_error option \<times> 'x state" where
  "mkdir_recursive p s =
     (case fs_mkdir_recursive (fs s) p of
        Inl e \<Rightarrow> (Some e, emit (FsMkdir p) s)
      | Inr files' \<Rightarrow> (None, emit (FsMkdir p) (s\<lparr>fs := files'\<rparr>)))"

definition writeFile :: "path \<Rightarrow> string \<Rightarrow> 'x state \<Rightarrow> fs_error option \<times> 'x state" where
  "writeFile p content s =
     (case fs_writeFile (fs s) p content of
        Inl e \<Rightarrow> (Some e, emit (FsWriteFile p content) s)
      | Inr files' \<Rightarrow> (None, emit (FsWriteFile p content) (s\<lparr>fs := files'\<rparr>)))"

section \<open>Config store: loadConfig and saveConfig (sync.ts)\<close>

text \<open>
  Both functions compute the base directory with the same expression: the argument
  resolved against the working directory when it is given, not empty and not
  \<^verbatim>\<open>"./"\<close>, the working directory otherwise.
\<close>

definition baseDir :: "'x env \<Rightarrow> string option \<Rightarrow> path" where
  "baseDir env sourceRepo =
     (case sourceRepo of
        None \<Rightarrow> cwd env
      | Some d \<Rightarrow> if d \<noteq> [] \<and> d \<noteq> ''./'' then resolve env (cwd env) d else cwd env)"

definition configPath :: "'x env \<Rightarrow> string option \<Rightarrow> path" where
  "configPath env sourceRepo = baseDir env sourceRepo @ [''repomirror.yaml'']"

text \<open>Any failure (missing file, unreadable yaml) is caught and becomes \<^verbatim>\<open>null\<close>.\<close>

definition loadConfig :: "'x env \<Rightarrow> string option \<Rightarrow> filesystem \<Rightarrow> RepomirrorConfig option" where
  "loadConfig env sourceRepo files =
     (case fs_readFile files (configPath env sourceRepo) of
        Inl e \<Rightarrow> None
      | Inr configContent \<Rightarrow> yaml_parse env configContent)"

text \<open>The result is the exception that left the function, if any.\<close>

definition saveConfig ::
  "'x env \<Rightarrow> RepomirrorConfig \<Rightarrow> string option \<Rightarrow> 'x state \<Rightarrow> fs_error option \<times> 'x state" where
  "saveConfig env config sourceRepo s =
     (case mkdir_recursive (baseDir env sourceRepo) s of
        (Some e, s1) \<Rightarrow> (Some e, s1)
      | (None, s1) \<Rightarrow>
          writeFile (configPath env sourceRepo) (yaml_stringify env config) s1)"

section \<open>Remote registry: remote (sync.ts)\<close>

text \<open>
  \<^verbatim>\<open>remote add\<close>: \<^verbatim>\<open>const [name, url, branch = "main"] = args\<close> takes the default only
  when the third argument is missing. The entry found by \<^verbatim>\<open>findIndex\<close> is replaced at
  its index, a new one is pushed at the end, and the document is saved.
\<close>

definition remote_add ::
  "'x env \<Rightarrow> RepomirrorConfig \<Rightarrow> string list \<Rightarrow> 'x state \<Rightarrow> outcome \<times> 'x state" where
  "remote_add env config args s =
     (let name_arg = arg_at args 0;
          url_arg = arg_at args 1;
          branch_arg = (case arg_at args 2 of None \<Rightarrow> ''main'' | Some b \<Rightarrow> b)
      in if \<not> truthy_str name_arg \<or> \<not> truthy_str url_arg
         then (Exited 1, emit (PrintErr UsageRemoteAdd) s)
         else
           (let n = js_or_else name_arg [];
                u = js_or_else url_arg [];
                entry = \<lparr>name = n, url = u, branch = branch_arg\<rparr>;
                rs = (case remotes config of None \<Rightarrow> [] | Some rs \<Rightarrow> rs);
                (rs', s1) =
                  (case findIndex (\<lambda>r. name r = n) rs of
                     Some existingIndex \<Rightarrow>
                       (rs[existingIndex := entry], emit (Print (UpdatedRemote n)) s)
                   | None \<Rightarrow> (rs @ [entry], emit (Print (AddedRemote n)) s))
            in case saveConfig env (config\<lparr>remotes := Some rs'\<rparr>) None s1 of
                 (Some e, s2) \<Rightarrow> (Threw (fs_error_message e), s2)
               | (None, s2) \<Rightarrow> (Returned, s2)))"

definition remote_list :: "RepomirrorConfig \<Rightarrow> 'x state \<Rightarrow> outcome \<times> 'x state" where
  "remote_list config s =
     (case remotes config of
        None \<Rightarrow> (Returned, emit (Print NoRemotesListed) s)
      | Some [] \<Rightarrow> (Returned, emit (Print NoRemotesListed) s)
      | Some rs \<Rightarrow>
          (Returned,
           fold (\<lambda>r. emit (Print (RemoteLine (name r) (url r) (branch r)))) rs
             (emit (Print ConfiguredRemotes) s)))"

definition remote_remove ::
  "'x env \<Rightarrow> RepomirrorConfig \<Rightarrow> string list \<Rightarrow> 'x state \<Rightarrow> outcome \<times> 'x state" where
  "remote_remove env config args s =
     (let name_arg = arg_at args 0
      in if \<not> truthy_str name_arg then (Exited 1, emit (PrintErr UsageRemoteRemove) s)
         else
           (let n = js_or_else name_arg []
            in case remotes config of
                 None \<Rightarrow> (Returned, emit (Print (RemoteNotFoundWarn n)) s)
               | Some rs \<Rightarrow>
                   (case findIndex (\<lambda>r. name r = n) rs of
                      Some index \<Rightarrow>
                        (let rs' = take index rs @ drop (Suc index) rs;
                             s1 = emit (Print (RemovedRemote n)) s
                         in case saveConfig env (config\<lparr>remotes := Some rs'\<rparr>) None s1 of
                              (Some e, s2) \<Rightarrow> (Threw (fs_error_message e), s2)
                            | (None, s2) \<Rightarrow> (Returned, s2))
                    | None \<Rightarrow> (Returned, emit (Print (RemoteNotFoundWarn n)) s))))"

definition remote :: "'x env \<Rightarrow> string \<Rightarrow> string list \<Rightarrow> 'x state \<Rightarrow> outcome \<times> 'x state" where
  "remote env action args s =
     (case loadConfig env None (fs s) of
        None \<Rightarrow> (Exited 1, emit (PrintErr ConfigNotFound) s)
      | Some config \<Rightarrow>
          if action = ''add'' then remote_add env config args s
          else if action = ''list'' then remote_list config s
          else if action = ''remove'' then remote_remove env config args s
          else (Exited 1, emit (Print AvailableActions) (emit (PrintErr (UnknownAction action)) s)))"

section \<open>Push coordinator: push (sync.ts)\<close>

text \<open>The \<^verbatim>\<open>git push\<close> that sends the target repository's HEAD to a URL and branch.\<close>

definition git_push :: "string \<Rightarrow> string \<Rightarrow> string \<Rightarrow> command" where
  "git_push targetRepo u b = Git [''push'', u, ''HEAD:'' @ b] targetRepo"

text \<open>
  The loop of the all-remotes mode. The body is one \<^verbatim>\<open>try\<close>: what \<^verbatim>\<open>git push\<close>
  throws is caught, reported for this remote, and the loop goes on.
\<close>

fun push_all :: "'x env \<Rightarrow> bool \<Rightarrow> string \<Rightarrow> RemoteConfig list \<Rightarrow> 'x state \<Rightarrow> 'x state" where
  "push_all env dry targetRepo [] s = s"
| "push_all env dry targetRepo (r # rs) s =
     (let s1 = emit (Print (PushingTo (name r) (branch r))) s
      in if \<not> dry
         then (case run env (git_push targetRepo (url r) (branch r)) s1 of
                 (ProcOk out, s2) \<Rightarrow>
                   push_all env dry targetRepo rs (emit (Print (PushedTo (name r))) s2)
               | (ProcErr sig msg, s2) \<Rightarrow>
                   push_all env dry targetRepo rs (emit (PrintErr (FailedPushTo (name r) msg)) s2))
         else push_all env dry targetRepo rs (emit (Print (PushedTo (name r))) s1))"

text \<open>
  The single-remote mode:
  \<^verbatim>\<open>options?.remote || config.default_remote || "origin"\<close> and
  \<^verbatim>\<open>options?.branch || remote.branch\<close>.
\<close>

definition remoteName :: "PushOptions option \<Rightarrow> RepomirrorConfig \<Rightarrow> string" where
  "remoteName options config =
     js_or_else (js_or (opt_chain options remote_opt) (default_remote config)) ''origin''"

definition push_one ::
  "'x env \<Rightarrow> PushOptions option \<Rightarrow> RepomirrorConfig \<Rightarrow> RemoteConfig list \<Rightarrow> 'x state
     \<Rightarrow> outcome \<times> 'x state" where
  "push_one env options config rs s =
     (let rn = remoteName options config
      in case find (\<lambda>r. name r = rn) rs of
           None \<Rightarrow> (Exited 1, emit (PrintErr (RemoteNotFound rn)) s)
         | Some r \<Rightarrow>
             (let b = js_or_else (opt_chain options branch_opt) (branch r);
                  s1 = emit (Print (PushingTo rn b)) s
              in if \<not> truthy (opt_chain options dryRun)
                 then (case run env (git_push (target_repo config) (url r) b) s1 of
                         (ProcOk out, s2) \<Rightarrow> (Returned, emit (Print (PushedTo rn)) s2)
                       | (ProcErr sig msg, s2) \<Rightarrow> (Exited 1, emit (PrintErr (FailedPush msg)) s2))
                 else (Returned, emit (Print (DryRunWouldPush (url r) b)) s1)))"

definition push :: "'x env \<Rightarrow> PushOptions option \<Rightarrow> 'x state \<Rightarrow> outcome \<times> 'x state" where
  "push env options s =
     (case loadConfig env None (fs s) of
        None \<Rightarrow> (Exited 1, emit (PrintErr NoRemotesConfigured) s)
      | Some config \<Rightarrow>
          (case remotes config of
             None \<Rightarrow> (Exited 1, emit (PrintErr NoRemotesConfigured) s)
           | Some [] \<Rightarrow> (Exited 1, emit (PrintErr NoRemotesConfigured) s)
           | Some rs \<Rightarrow>
               if truthy (opt_chain options all_opt)
               then (Returned,
                     push_all env (truthy (opt_chain options dryRun)) (target_repo config) rs
                       (emit (Print PushingAll) s))
               else push_one env options config rs s))"

section \<open>Sync executor: sync and syncForever (sync.ts)\<close>

text \<open>
  The subprocess is started, the handlers are installed, and the result of the
  subprocess is awaited. A failure whose \<^verbatim>\<open>signal\<close> is \<^verbatim>\<open>"SIGINT"\<close> ends the process with
  status 0, any other failure with status 1. \<^verbatim>\<open>process.exit\<close> ends the process at
  once, so the \<^verbatim>\<open>finally\<close> block only runs where the \<^verbatim>\<open>try\<close> block returns.
\<close>

definition sync :: "'x env \<Rightarrow> SyncOptions option \<Rightarrow> 'x state \<Rightarrow> outcome \<times> 'x state" where
  "sync env options s =
     (let syncScript = cwd env @ [''.repomirror'', ''sync.sh'']
      in if \<not> fs_access (fs s) syncScript
         then (Exited 1, emit (PrintErr SyncScriptNotFound) s)
         else
           (case run env (Bash syncScript (cwd env)) (emit (Print RunningSync) s) of
              (ProcOk out, s1) \<Rightarrow>
                (let s2 = emit (Print SyncCompleted) (emit HandlersOn s1)
                 in if truthy (opt_chain options autoPush)
                    then (case loadConfig env None (fs s2) of
                            None \<Rightarrow> (Returned, emit HandlersOff s2)
                          | Some config \<Rightarrow>
                              (case push env
                                      (Some \<lparr>remote_opt = None, branch_opt = None,
                                             all_opt = Some True, dryRun = None\<rparr>) s2 of
                                 (Returned, s3) \<Rightarrow> (Returned, emit HandlersOff s3)
                               | (Exited n, s3) \<Rightarrow> (Exited n, s3)
                               | (Threw msg, s3) \<Rightarrow>
                                   (Exited 1,
                                    emit (PrintErr (SyncFailed msg)) (emit HandlersOff s3))))
                    else (Returned, emit HandlersOff s2))
            | (ProcErr sig msg, s1) \<Rightarrow>
                (let s2 = emit HandlersOff (emit HandlersOn s1)
                 in if sig = Some ''SIGINT''
                    then (Exited 0, emit (Print SyncStopped) s2)
                    else (Exited 1, emit (PrintErr (SyncFailed msg)) s2))))"

definition syncForever :: "'x env \<Rightarrow> SyncOptions option \<Rightarrow> 'x state \<Rightarrow> outcome \<times> 'x state" where
  "syncForever env options s =
     (let ralphScript = cwd env @ [''.repomirror'', ''ralph.sh'']
      in if \<not> fs_access (fs s) ralphScript
         then (Exited 1, emit (PrintErr RalphScriptNotFound) s)
         else
           (case run env (Bash ralphScript (cwd env))
                   (emit (Print PressCtrlC) (emit (Print RunningRalph) s)) of
              (ProcOk out, s1) \<Rightarrow> (Returned, emit HandlersOff (emit HandlersOn s1))
            | (ProcErr sig msg, s1) \<Rightarrow>
                (let s2 = emit HandlersOff (emit HandlersOn s1)
                 in if sig = Some ''SIGINT''
                    then (Exited 0, emit (Print ContinuousSyncStopped) s2)
                    else (Exited 1, emit (PrintErr (ContinuousSyncFailed msg)) s2))))"

section \<open>Pull coordinator: pull (sync.ts)\<close>

text \<open>
  The chained sync runs inside the \<^verbatim>\<open>try\<close> block of the pull: an exception leaving
  it would be reported as a failed pull.
\<close>

definition pull_catch :: "outcome \<times> 'x state \<Rightarrow> outcome \<times> 'x state" where
  "pull_catch res =
     (case res of
        (Threw msg, s) \<Rightarrow> (Exited 1, emit (PrintErr (FailedPull msg)) s)
      | _ \<Rightarrow> res)"

definition pull :: "'x env \<Rightarrow> PullOptions option \<Rightarrow> 'x state \<Rightarrow> outcome \<times> 'x state" where
  "pull env options s =
     (case loadConfig env None (fs s) of
        None \<Rightarrow> (Exited 1, emit (PrintErr ConfigNotFound) s)
      | Some config \<Rightarrow>
          (let sourceRepo = source_repo config
           in if truthy (opt_chain options check)
              then (case run env (Git [''fetch''] sourceRepo) (emit (Print CheckingSource) s) of
                      (ProcErr sig msg, s1) \<Rightarrow> (Exited 1, emit (PrintErr (FailedCheck msg)) s1)
                    | (ProcOk out, s1) \<Rightarrow>
                        (case run env (Git [''status'', ''-uno''] sourceRepo) s1 of
                           (ProcErr sig msg, s2) \<Rightarrow>
                             (Exited 1, emit (PrintErr (FailedCheck msg)) s2)
                         | (ProcOk stdout, s2) \<Rightarrow> (Returned, emit (Print (Stdout stdout)) s2)))
              else (case run env (Git [''pull''] sourceRepo) (emit (Print PullingSource) s) of
                      (ProcErr sig msg, s1) \<Rightarrow> (Exited 1, emit (PrintErr (FailedPull msg)) s1)
                    | (ProcOk out, s1) \<Rightarrow>
                        (let s2 = emit (Print SourceUpdated) s1
                         in if \<not> truthy (opt_chain options sourceOnly)
                            then if truthy (opt_chain options syncAfter)
                                 then pull_catch (syncForever env None s2)
                                 else if truthy (auto_sync config)
                                      then pull_catch (sync env None s2)
                                      else (Returned, s2)
                            else (Returned, s2)))))"

section \<open>Reading a trace\<close>

text \<open>The subprocesses a trace has run, in order.\<close>

primrec commands_run :: "event list \<Rightarrow> command list" where
  "commands_run [] = []"
| "commands_run (e # es) = (case e of Exec c r \<Rightarrow> [c] | _ \<Rightarrow> []) @ commands_run es"

text \<open>The calls of the program itself that change the disk.\<close>

primrec fs_calls :: "event list \<Rightarrow> event list" where
  "fs_calls [] = []"
| "fs_calls (e # es) =
     (case e of FsMkdir p \<Rightarrow> [e] | FsWriteFile p c \<Rightarrow> [e] | FsRename p q \<Rightarrow> [e] | _ \<Rightarrow> [])
       @ fs_calls es"

text \<open>
  What the all-remotes loop reports for a remote, given how its \<^verbatim>\<open>git push\<close> ended.
\<close>

definition push_report :: "RemoteConfig \<Rightarrow> proc_result \<Rightarrow> event" where
  "push_report r res =
     (case res of
        ProcOk out \<Rightarrow> Print (PushedTo (name r))
      | ProcErr sig msg \<Rightarrow> PrintErr (FailedPushTo (name r) msg))"

text \<open>
  The list of remotes that \<^verbatim>\<open>remote add\<close> saves: the two branches of its
  \<^verbatim>\<open>if (existingIndex >= 0)\<close>, without the message.
\<close>

definition upserted :: "RemoteConfig list \<Rightarrow> RemoteConfig \<Rightarrow> RemoteConfig list" where
  "upserted rs e = (case findIndex (\<lambda>r. name r = name e) rs of
                      Some i \<Rightarrow> rs[i := e] | None \<Rightarrow> rs @ [e])"

section \<open>A concrete environment\<close>

text \<open>
  The example of the specification: the remotes \<open>origin\<close> and \<open>staging\<close>, the second
  one unreachable. The yaml text of the example document is \<open>doc\<close>.
\<close>

definition ex_origin :: RemoteConfig where
  "ex_origin = \<lparr>name = ''origin'', url = ''https://x/repo.git'', branch = ''main''\<rparr>"

definition ex_staging :: RemoteConfig where
  "ex_staging = \<lparr>name = ''staging'', url = ''https://x/repo2.git'', branch = ''dev''\<rparr>"

definition ex_config :: RepomirrorConfig where
  "ex_config =
     \<lparr>source_repo = ''./'', target_repo = ''../target'',
      transformation_instructions = ''port'', config_version = ''0.1.0'',
      default_remote = None, auto_sync = Some True,
      remotes = Some [ex_origin, ex_staging],
      target_remote = None, times_to_loop = None\<rparr>"

definition ex_config_staging :: RepomirrorConfig where
  "ex_config_staging = ex_config\<lparr>default_remote := Some ''staging''\<rparr>"

text \<open>
  The push to \<open>staging\<close> fails, the single-shot script fails with an exit code, and the
  continuous script is stopped by an interrupt; every other subprocess succeeds.
  No subprocess changes the disk.
\<close>

definition ex_execa :: "command \<Rightarrow> filesystem \<times> unit \<Rightarrow> proc_result \<times> filesystem \<times> unit" where
  "ex_execa c w =
     (if c = git_push ''../target'' ''https://x/repo2.git'' ''dev''
      then (ProcErr None ''unreachable'', w)
      else if c = Bash [''work'', ''.repomirror'', ''sync.sh''] [''work'']
      then (ProcErr None ''exit code 1'', w)
      else if c = Bash [''work'', ''.repomirror'', ''ralph.sh''] [''work'']
      then (ProcErr (Some ''SIGINT'') ''interrupted'', w)
      else (ProcOk [], w))"

definition ex_env :: "unit env" where
  "ex_env =
     \<lparr>cwd = [''work''],
      resolve = (\<lambda>base d. base @ [d]),
      yaml_stringify =
        (\<lambda>c. if c = ex_config then ''doc''
             else if c = ex_config_staging then ''doc-staging'' else ''other''),
      yaml_parse =
        (\<lambda>t. if t = ''doc'' then Some ex_config
             else if t = ''doc-staging'' then Some ex_config_staging else None),
      execa = ex_execa\<rparr>"

definition ex_blank :: "unit state" where
  "ex_blank = \<lparr>fs = Map.empty, ext = (), trace = []\<rparr>"

definition ex_files :: "string \<Rightarrow> filesystem" where
  "ex_files doc =
     [[''work''] \<mapsto> Directory,
      [''work'', ''repomirror.yaml''] \<mapsto> File doc,
      [''work'', ''.repomirror''] \<mapsto> Directory,
      [''work'', ''.repomirror'', ''sync.sh''] \<mapsto> File ''claude'',
      [''work'', ''.repomirror'', ''ralph.sh''] \<mapsto> File ''while true'']"

definition ex_state :: "unit state" where
  "ex_state = \<lparr>fs = ex_files ''doc'', ext = (), trace = []\<rparr>"

definition ex_state_staging :: "unit state" where
  "ex_state_staging = \<lparr>fs = ex_files ''doc-staging'', ext = (), trace = []\<rparr>"

definition ex_push_all :: PushOptions where
  "ex_push_all = \<lparr>remote_opt = None, branch_opt = None, all_opt = Some True, dryRun = None\<rparr>"

definition ex_push_empty_remote :: PushOptions where
  "ex_push_empty_remote =
     \<lparr>remote_opt = Some [], branch_opt = None, all_opt = None, dryRun = Some True\<rparr>"

definition ex_pull_check :: PullOptions where
  "ex_pull_check = \<lparr>sourceOnly = None, syncAfter = Some True, check = Some True\<rparr>"

definition ex_pull_sync_after :: PullOptions where
  "ex_pull_sync_after = \<lparr>sourceOnly = None, syncAfter = Some True, check = None\<rparr>"

section \<open>Facts about the helpers and the example\<close>

lemma fs_calls_append: "fs_calls (xs @ ys) = fs_calls xs @ fs_calls ys"
  by (induction xs) auto

lemma commands_run_append: "commands_run (xs @ ys) = commands_run xs @ commands_run ys"
  by (induction xs) auto

lemma findIndex_Some:
  "findIndex P xs = Some i \<Longrightarrow> i < length xs \<and> P (xs ! i) \<and> (\<forall>j<i. \<not> P (xs ! j))"
proof (induction xs arbitrary: i)
  case Nil
  then show ?case by simp
next
  case (Cons x xs)
  show ?case
  proof (cases "P x")
    case True
    with Cons.prems show ?thesis by simp
  next
    case False
    with Cons.prems obtain k where k: "findIndex P xs = Some k" "i = Suc k"
      by auto
    from Cons.IH[OF k(1)] False k(2) show ?thesis
      by (auto simp: less_Suc_eq_0_disj)
  qed
qed

lemma findIndex_None: "findIndex P xs = None \<longleftrightarrow> (\<forall>x\<in>set xs. \<not> P x)"
  by (induction xs) auto

lemma ex_fs_state [simp]: "fs ex_state = ex_files ''doc''" "fs ex_state_staging = ex_files ''doc-staging''"
  "trace ex_state = []" "trace ex_state_staging = []" "ext ex_state = ()"
  by (simp_all add: ex_state_def ex_state_staging_def)

lemma ex_remotes: "remotes ex_config = Some [ex_origin, ex_staging]"
  "remotes ex_config_staging = Some [ex_origin, ex_staging]"
  by (simp_all add: ex_config_def ex_config_staging_def)

lemma ex_run_push_origin:
  "ex_execa (Git [''push'', ''https://x/repo.git'', ''HEAD:main''] ''../target'') w = (ProcOk [], w)"
  by (simp add: ex_execa_def git_push_def)

lemma ex_run_push_staging:
  "ex_execa (Git [''push'', ''https://x/repo2.git'', ''HEAD:dev''] ''../target'') w
     = (ProcErr None ''unreachable'', w)"
  by (simp add: ex_execa_def git_push_def)

lemma ex_env_sel [simp]: "cwd ex_env = [''work'']" "execa ex_env = ex_execa"
  by (simp_all add: ex_env_def)

section \<open>The config store\<close>

lemma prefixes_butlast_ex:
  "list_ex P (prefixes p) \<longleftrightarrow> P p \<or> list_ex P (prefixes (butlast p))"
proof (cases p rule: rev_cases)
  case Nil
  then show ?thesis by simp
next
  case (snoc ys y)
  then show ?thesis by (auto simp: list_ex_iff)
qed

lemma mkdir_ok_iff:
  "fs_mkdir_recursive files p = Inr (\<lambda>q. if prefix q p then Some Directory else files q)
     \<longleftrightarrow> \<not> list_ex (is_file files) (prefixes p)"
  by (simp add: fs_mkdir_recursive_def prefixes_butlast_ex[of "is_file files" p])

lemma mkdir_fail_iff:
  "(\<exists>e. fs_mkdir_recursive files p = Inl e) \<longleftrightarrow> list_ex (is_file files) (prefixes p)"
  by (auto simp add: fs_mkdir_recursive_def prefixes_butlast_ex[of "is_file files" p])

lemma ancestors_after_mkdir:
  "ancestors_ok (\<lambda>q. if prefix q p then Some Directory else files q) (p @ [n])"
  by (simp add: ancestors_ok_def list_all_iff is_dir_def)

lemma saveConfig_None_iff:
  "fst (saveConfig env config sr s) = None \<longleftrightarrow>
     \<not> list_ex (is_file (fs s)) (prefixes (baseDir env sr)) \<and>
     fs s (configPath env sr) \<noteq> Some Directory"
  using mkdir_fail_iff[of "fs s" "baseDir env sr"] mkdir_ok_iff[of "fs s" "baseDir env sr"]
  by (auto simp: saveConfig_def mkdir_recursive_def writeFile_def fs_writeFile_def emit_def
      configPath_def ancestors_after_mkdir is_dir_def split: sum.splits)

lemma saveConfig_None_state:
  assumes "saveConfig env config sr s = (None, s')"
  shows "s' = s\<lparr>fs := (\<lambda>q. if prefix q (baseDir env sr) then Some Directory else fs s q)
                      (configPath env sr \<mapsto> File (yaml_stringify env config)),
               trace := trace s @ [FsMkdir (baseDir env sr),
                 FsWriteFile (configPath env sr) (yaml_stringify env config)]\<rparr>"
  using assms
  by (auto simp: saveConfig_def mkdir_recursive_def writeFile_def fs_writeFile_def emit_def
      fs_mkdir_recursive_def split: sum.splits if_splits)

lemma read_after_save:
  "fs_readFile ((\<lambda>q. if prefix q b then Some Directory else files q)(b @ [n] \<mapsto> File c)) (b @ [n]) = Inr c"
  by (auto simp add: fs_readFile_def is_dir_def ancestors_ok_def list_all_iff
      dest: prefix_length_le)

text \<open>
  Claim C5. Saving a document and loading it from the same base directory gives the
  document back, every optional field present exactly when it was set. The yaml
  library is outside the repository: the statement holds for every codec that reads
  back the text it wrote for this document. What is shown of the code is that both
  functions compute the same path, that the directory is made before the write, and
  that the whole document is written and read.
\<close>

theorem save_then_load_roundtrip:
  assumes codec: "yaml_parse env (yaml_stringify env config) = Some config"
    and saved: "saveConfig env config sourceRepo s = (None, s')"
  shows "\<exists>loaded. loadConfig env sourceRepo (fs s') = Some loaded \<and> loaded = config
           \<and> (default_remote loaded = None \<longleftrightarrow> default_remote config = None)
           \<and> (auto_sync loaded = None \<longleftrightarrow> auto_sync config = None)
           \<and> (remotes loaded = None \<longleftrightarrow> remotes config = None)
           \<and> (target_remote loaded = None \<longleftrightarrow> target_remote config = None)
           \<and> (times_to_loop loaded = None \<longleftrightarrow> times_to_loop config = None)"
proof -
  have "fs_readFile (fs s') (configPath env sourceRepo) = Inr (yaml_stringify env config)"
    using saveConfig_None_state[OF saved] by (simp add: configPath_def read_after_save)
  then have "loadConfig env sourceRepo (fs s') = Some config"
    using codec by (simp add: loadConfig_def)
  then show ?thesis by simp
qed

theorem save_then_load_roundtrip_witness:
  "yaml_parse ex_env (yaml_stringify ex_env ex_config) = Some ex_config
   \<and> fst (saveConfig ex_env ex_config (Some ''proj'') ex_blank) = None
   \<and> loadConfig ex_env (Some ''proj'')
         (fs (snd (saveConfig ex_env ex_config (Some ''proj'') ex_blank))) = Some ex_config"
proof -
  have codec: "yaml_parse ex_env (yaml_stringify ex_env ex_config) = Some ex_config"
    by (simp add: ex_env_def)
  have ok: "fst (saveConfig ex_env ex_config (Some ''proj'') ex_blank) = None"
    by (simp add: saveConfig_None_iff baseDir_def configPath_def ex_env_def ex_blank_def
        is_file_def)
  then have saved: "saveConfig ex_env ex_config (Some ''proj'') ex_blank
      = (None, snd (saveConfig ex_env ex_config (Some ''proj'') ex_blank))"
    by (simp add: prod_eq_iff)
  show ?thesis
    using save_then_load_roundtrip[OF codec saved] codec ok by simp
qed

text \<open>
  Claim C6, as stated, asks for a temporary file that is renamed onto the
  configuration file. On the example, \<open>saveConfig\<close> makes the directory and writes the
  configuration file itself, in place; there is no rename.
\<close>

theorem saveConfig_atomic_counterexample:
  "trace (snd (saveConfig ex_env ex_config None ex_state))
     = [FsMkdir [''work''], FsWriteFile [''work'', ''repomirror.yaml''] ''doc'']"
  by (simp add: saveConfig_def mkdir_recursive_def writeFile_def fs_writeFile_def emit_def
      fs_mkdir_recursive_def baseDir_def configPath_def ex_env_def ex_state_def
      ex_files_def is_file_def is_dir_def ancestors_ok_def)

text \<open>
  Claim C6, amended. \<open>saveConfig\<close> completes exactly when no component of the base
  directory is a file and the configuration path is not a directory. It then has made
  the base directory (and its missing ancestors) and written the serialised document
  with one \<^verbatim>\<open>writeFile\<close> on the configuration path, after which the file holds the
  whole document.
\<close>

theorem saveConfig_writes_in_place:
  "(fst (saveConfig env config sourceRepo s) = None \<longleftrightarrow>
      \<not> list_ex (is_file (fs s)) (prefixes (baseDir env sourceRepo)) \<and>
      fs s (configPath env sourceRepo) \<noteq> Some Directory)
   \<and> (fst (saveConfig env config sourceRepo s) = None \<longrightarrow>
        trace (snd (saveConfig env config sourceRepo s))
          = trace s @ [FsMkdir (baseDir env sourceRepo),
                       FsWriteFile (configPath env sourceRepo) (yaml_stringify env config)]
        \<and> is_dir (fs (snd (saveConfig env config sourceRepo s))) (baseDir env sourceRepo)
        \<and> fs_readFile (fs (snd (saveConfig env config sourceRepo s))) (configPath env sourceRepo)
            = Inr (yaml_stringify env config))"
proof -
  have "trace s' = trace s @ [FsMkdir (baseDir env sourceRepo),
                       FsWriteFile (configPath env sourceRepo) (yaml_stringify env config)]
        \<and> is_dir (fs s') (baseDir env sourceRepo)
        \<and> fs_readFile (fs s') (configPath env sourceRepo) = Inr (yaml_stringify env config)"
    if "saveConfig env config sourceRepo s = (None, s')" for s'
    using saveConfig_None_state[OF that]
    by (simp add: configPath_def read_after_save is_dir_def)
  then show ?thesis
    using saveConfig_None_iff[of env config sourceRepo s]
    by (cases "saveConfig env config sourceRepo s") auto
qed

theorem saveConfig_writes_in_place_witness:
  "fst (saveConfig ex_env ex_config (Some ''proj'') ex_blank) = None
   \<and> trace (snd (saveConfig ex_env ex_config (Some ''proj'') ex_blank))
       = [FsMkdir [''work'', ''proj''],
          FsWriteFile [''work'', ''proj'', ''repomirror.yaml''] ''doc'']
   \<and> is_dir (fs (snd (saveConfig ex_env ex_config (Some ''proj'') ex_blank))) [''work'', ''proj'']"
  using saveConfig_writes_in_place[of ex_env ex_config "Some ''proj''" ex_blank]
  by (simp add: baseDir_def configPath_def ex_env_def ex_blank_def is_file_def)

lemma ex_loaded: "loadConfig ex_env None (ex_files ''doc'') = Some ex_config"
  by (simp add: loadConfig_def fs_readFile_def configPath_def baseDir_def ex_env_def
      ex_files_def is_dir_def ancestors_ok_def)

lemma ex_loaded_staging:
  "loadConfig ex_env None (ex_files ''doc-staging'') = Some ex_config_staging"
  by (simp add: loadConfig_def fs_readFile_def configPath_def baseDir_def ex_env_def
      ex_files_def is_dir_def ancestors_ok_def)

section \<open>The remote registry\<close>

lemma load_Some_fs:
  assumes "loadConfig env sr files = Some c"
  shows "\<not> list_ex (is_file files) (prefixes (baseDir env sr))"
    and "files (configPath env sr) \<noteq> Some Directory"
proof -
  from assms have ok: "ancestors_ok files (configPath env sr)"
    and nd: "\<not> is_dir files (configPath env sr)"
    by (auto simp: loadConfig_def fs_readFile_def split: if_splits)
  from ok show "\<not> list_ex (is_file files) (prefixes (baseDir env sr))"
    by (auto simp: ancestors_ok_def configPath_def list_all_iff list_ex_iff is_dir_def
        is_file_def)
  from nd show "files (configPath env sr) \<noteq> Some Directory"
    by (simp add: is_dir_def)
qed

lemma saveConfig_after_load:
  assumes "loadConfig env None (fs s) = Some c0"
  shows "saveConfig env c None s =
     (None, s\<lparr>fs := (\<lambda>q. if prefix q (baseDir env None) then Some Directory else fs s q)
                      (configPath env None \<mapsto> File (yaml_stringify env c)),
               trace := trace s @ [FsMkdir (baseDir env None),
                 FsWriteFile (configPath env None) (yaml_stringify env c)]\<rparr>)"
proof -
  have "fst (saveConfig env c None s) = None"
    using load_Some_fs[OF assms] by (simp add: saveConfig_None_iff)
  then obtain s' where s': "saveConfig env c None s = (None, s')"
    by (cases "saveConfig env c None s") auto
  from saveConfig_None_state[OF s'] s' show ?thesis by simp
qed

lemma saveConfig_after_load_trace:
  assumes "loadConfig env None (fs s) = Some c0"
  shows "saveConfig env c None (s\<lparr>trace := tr\<rparr>) =
     (None, s\<lparr>fs := (\<lambda>q. if prefix q (baseDir env None) then Some Directory else fs s q)
                      (configPath env None \<mapsto> File (yaml_stringify env c)),
               trace := tr @ [FsMkdir (baseDir env None),
                 FsWriteFile (configPath env None) (yaml_stringify env c)]\<rparr>)"
proof -
  have "loadConfig env None (fs (s\<lparr>trace := tr\<rparr>)) = Some c0"
    using assms by simp
  from saveConfig_after_load[OF this] show ?thesis by (simp cong: if_cong)
qed

lemma remote_add_effect:
  assumes loaded: "loadConfig env None (fs s) = Some config"
    and n: "n \<noteq> []" and u: "u \<noteq> []"
    and args: "args = [n, u] \<and> b = ''main'' \<or> args = [n, u, b]"
  shows "remote env ''add'' args s =
     (Returned,
      s\<lparr>fs := (\<lambda>q. if prefix q (baseDir env None) then Some Directory else fs s q)
                 (configPath env None \<mapsto> File (yaml_stringify env
                    (config\<lparr>remotes := Some (upserted
                        (case remotes config of None \<Rightarrow> [] | Some rs \<Rightarrow> rs)
                        \<lparr>name = n, url = u, branch = b\<rparr>)\<rparr>))),
        trace := trace s @
          [Print (if n \<in> name ` set (case remotes config of None \<Rightarrow> [] | Some rs \<Rightarrow> rs)
                  then UpdatedRemote n else AddedRemote n),
           FsMkdir (baseDir env None),
           FsWriteFile (configPath env None) (yaml_stringify env
                    (config\<lparr>remotes := Some (upserted
                        (case remotes config of None \<Rightarrow> [] | Some rs \<Rightarrow> rs)
                        \<lparr>name = n, url = u, branch = b\<rparr>)\<rparr>))]\<rparr>)"
proof -
  define rs where "rs = (case remotes config of None \<Rightarrow> [] | Some rs \<Rightarrow> rs)"
  define e where "e = \<lparr>name = n, url = u, branch = b\<rparr>"
  have a0: "arg_at args 0 = Some n" and a1: "arg_at args (Suc 0) = Some u"
    and a2: "(case arg_at args 2 of None \<Rightarrow> ''main'' | Some b \<Rightarrow> b) = b"
    using args by (auto simp: arg_at_def)
  show ?thesis
  proof (cases "findIndex (\<lambda>r. name r = n) rs")
    case None
    then have "n \<notin> name ` set rs" by (auto simp: findIndex_None)
    with None show ?thesis
      using n u loaded
      by (simp add: remote_def remote_add_def a0 a1 a2 truthy_str_def Let_def js_or_else_def
          saveConfig_after_load_trace[OF loaded] upserted_def rs_def[symmetric] emit_def)
  next
    case (Some i)
    from findIndex_Some[OF Some] have "n \<in> name ` set rs"
      by (metis imageI nth_mem)
    with Some show ?thesis
      using n u loaded
      by (simp add: remote_def remote_add_def a0 a1 a2 truthy_str_def Let_def js_or_else_def
          saveConfig_after_load_trace[OF loaded] upserted_def rs_def[symmetric] emit_def)
  qed
qed

text \<open>
  Claim C4. \<^verbatim>\<open>remote add name url branch\<close> on a configuration that loads, with a name
  and a URL that are not empty: the command returns, and the document it has saved
  (made the directory, then written the configuration file, which the next load
  reads) carries a remotes sequence \<open>rs'\<close> such that: when the name is already
  present, \<open>rs'\<close> is the old sequence with the entry of that name replaced at its own
  index, so the length and the order of the names are unchanged; when the name is
  new, \<open>rs'\<close> is the old sequence with the new entry at the end; and when the names
  were distinct before, they are distinct afterwards.
\<close>

theorem remote_add_upsert:
  assumes loaded: "loadConfig env None (fs s) = Some config"
    and n: "n \<noteq> []" and u: "u \<noteq> []"
    and rs: "rs = (case remotes config of None \<Rightarrow> [] | Some xs \<Rightarrow> xs)"
    and after: "s' = snd (remote env ''add'' [n, u, b] s)"
  shows "\<exists>rs'. fst (remote env ''add'' [n, u, b] s) = Returned
      \<and> loadConfig env None (fs s') = yaml_parse env (yaml_stringify env (config\<lparr>remotes := Some rs'\<rparr>))
      \<and> fs_calls (trace s') = fs_calls (trace s) @
            [FsMkdir (cwd env),
             FsWriteFile (cwd env @ [''repomirror.yaml''])
               (yaml_stringify env (config\<lparr>remotes := Some rs'\<rparr>))]
      \<and> (n \<in> name ` set rs \<longrightarrow>
            (\<exists>i<length rs. name (rs ! i) = n
               \<and> rs' = rs[i := \<lparr>name = n, url = u, branch = b\<rparr>])
            \<and> length rs' = length rs \<and> map name rs' = map name rs)
      \<and> (n \<notin> name ` set rs \<longrightarrow> rs' = rs @ [\<lparr>name = n, url = u, branch = b\<rparr>])
      \<and> (distinct (map name rs) \<longrightarrow> distinct (map name rs'))"
proof -
  define e where "e = \<lparr>name = n, url = u, branch = b\<rparr>"
  have eff: "remote env ''add'' [n, u, b] s = (Returned,
      s\<lparr>fs := (\<lambda>q. if prefix q (baseDir env None) then Some Directory else fs s q)
                 (configPath env None \<mapsto> File (yaml_stringify env
                    (config\<lparr>remotes := Some (upserted rs e)\<rparr>))),
        trace := trace s @
          [Print (if n \<in> name ` set rs then UpdatedRemote n else AddedRemote n),
           FsMkdir (baseDir env None),
           FsWriteFile (configPath env None) (yaml_stringify env
                    (config\<lparr>remotes := Some (upserted rs e)\<rparr>))]\<rparr>)"
    using remote_add_effect[OF loaded n u, of "[n, u, b]" b] by (simp add: rs e_def)
  have 1: "fst (remote env ''add'' [n, u, b] s) = Returned"
    by (simp add: eff)
  have 2: "loadConfig env None (fs s')
      = yaml_parse env (yaml_stringify env (config\<lparr>remotes := Some (upserted rs e)\<rparr>))"
    by (simp add: after eff loadConfig_def configPath_def read_after_save)
  have 3: "fs_calls (trace s') = fs_calls (trace s) @
            [FsMkdir (cwd env),
             FsWriteFile (cwd env @ [''repomirror.yaml''])
               (yaml_stringify env (config\<lparr>remotes := Some (upserted rs e)\<rparr>))]"
    by (simp add: after eff fs_calls_append baseDir_def configPath_def)
  have 4: "(\<exists>i<length rs. name (rs ! i) = n \<and> upserted rs e = rs[i := e])
            \<and> length (upserted rs e) = length rs \<and> map name (upserted rs e) = map name rs"
    if "n \<in> name ` set rs"
  proof -
    from that obtain i where i: "findIndex (\<lambda>r. name r = n) rs = Some i"
      using findIndex_None[of "\<lambda>r. name r = n" rs] by (cases "findIndex (\<lambda>r. name r = n) rs") auto
    from findIndex_Some[OF i] have il: "i < length rs" and ni: "name (rs ! i) = n"
      by auto
    have up: "upserted rs e = rs[i := e]"
      by (simp add: upserted_def e_def i)
    have "map name (rs[i := e]) = map name rs"
      using il ni by (simp add: map_update e_def list_update_same_conv)
    with il ni up show ?thesis by auto
  qed
  have 5: "upserted rs e = rs @ [e]" if "n \<notin> name ` set rs"
  proof -
    from that have "findIndex (\<lambda>r. name r = n) rs = None"
      by (auto simp: findIndex_None)
    then show ?thesis by (simp add: upserted_def e_def)
  qed
  have 6: "distinct (map name (upserted rs e))" if "distinct (map name rs)"
  proof (cases "n \<in> name ` set rs")
    case True
    from 4[OF True] that show ?thesis by simp
  next
    case False
    with 5[OF False] that show ?thesis by (simp add: e_def)
  qed
  from 1 2 3 4 5 6 show ?thesis
    unfolding e_def by blast
qed

theorem remote_add_upsert_witness:
  "loadConfig ex_env None (fs ex_state) = Some ex_config
   \<and> distinct (map name [ex_origin, ex_staging])
   \<and> (\<exists>rs'. fst (remote ex_env ''add'' [''staging'', ''https://y/repo.git'', ''next''] ex_state)
               = Returned
        \<and> fs_calls (trace (snd (remote ex_env ''add''
              [''staging'', ''https://y/repo.git'', ''next''] ex_state)))
            = [FsMkdir [''work''],
               FsWriteFile [''work'', ''repomirror.yaml'']
                 (yaml_stringify ex_env (ex_config\<lparr>remotes := Some rs'\<rparr>))]
        \<and> (\<exists>i<2. rs' = [ex_origin, ex_staging]
                     [i := \<lparr>name = ''staging'', url = ''https://y/repo.git'', branch = ''next''\<rparr>])
        \<and> length rs' = 2 \<and> map name rs' = [''origin'', ''staging'']
        \<and> distinct (map name rs'))"
proof -
  have h1: "loadConfig ex_env None (fs ex_state) = Some ex_config"
    by (simp add: ex_loaded)
  have h2: "''staging'' \<noteq> []" and h3: "''https://y/repo.git'' \<noteq> []"
    by simp_all
  have h4: "[ex_origin, ex_staging] = (case remotes ex_config of None \<Rightarrow> [] | Some xs \<Rightarrow> xs)"
    by (simp add: ex_remotes)
  have d: "distinct (map name [ex_origin, ex_staging])"
    by (simp add: ex_origin_def ex_staging_def)
  have m: "''staging'' \<in> name ` set [ex_origin, ex_staging]"
    "map name [ex_origin, ex_staging] = [''origin'', ''staging'']" "cwd ex_env = [''work'']"
    by (simp_all add: ex_origin_def ex_staging_def ex_env_def)
  from remote_add_upsert[OF h1 h2 h3 h4 refl, of "''next''"] h1 d m
  show ?thesis by (auto simp: numeral_2_eq_2)
qed

text \<open>
  Claim C10. \<^verbatim>\<open>remote add name url\<close> without a branch, on a name that is already in the
  registry: the entry saved at that name's index has the branch \<open>main\<close>, whatever
  branch the entry had before.
\<close>

theorem remote_add_without_branch_resets_main:
  assumes loaded: "loadConfig env None (fs s) = Some config"
    and n: "n \<noteq> []" and u: "u \<noteq> []"
    and rs: "rs = (case remotes config of None \<Rightarrow> [] | Some xs \<Rightarrow> xs)"
    and present: "n \<in> name ` set rs"
  shows "\<exists>i<length rs. name (rs ! i) = n
      \<and> fst (remote env ''add'' [n, u] s) = Returned
      \<and> fs_readFile (fs (snd (remote env ''add'' [n, u] s))) (configPath env None)
          = Inr (yaml_stringify env
                  (config\<lparr>remotes := Some (rs[i := \<lparr>name = n, url = u, branch = ''main''\<rparr>])\<rparr>))"
proof -
  define e where "e = \<lparr>name = n, url = u, branch = ''main''\<rparr>"
  from present obtain i where i: "findIndex (\<lambda>r. name r = n) rs = Some i"
    using findIndex_None[of "\<lambda>r. name r = n" rs]
    by (cases "findIndex (\<lambda>r. name r = n) rs") auto
  from findIndex_Some[OF i] have il: "i < length rs" and ni: "name (rs ! i) = n"
    by auto
  have up: "upserted rs e = rs[i := e]"
    by (simp add: upserted_def e_def i)
  have eff: "remote env ''add'' [n, u] s = (Returned,
      s\<lparr>fs := (\<lambda>q. if prefix q (baseDir env None) then Some Directory else fs s q)
                 (configPath env None \<mapsto> File (yaml_stringify env
                    (config\<lparr>remotes := Some (rs[i := e])\<rparr>))),
        trace := trace s @
          [Print (if n \<in> name ` set rs then UpdatedRemote n else AddedRemote n),
           FsMkdir (baseDir env None),
           FsWriteFile (configPath env None) (yaml_stringify env
                    (config\<lparr>remotes := Some (rs[i := e])\<rparr>))]\<rparr>)"
    using remote_add_effect[OF loaded n u, of "[n, u]" "''main''"]
    by (simp add: rs[symmetric] e_def[symmetric] up)
  have "fst (remote env ''add'' [n, u] s) = Returned
      \<and> fs_readFile (fs (snd (remote env ''add'' [n, u] s))) (configPath env None)
          = Inr (yaml_stringify env (config\<lparr>remotes := Some (rs[i := e])\<rparr>))"
    by (simp add: eff configPath_def read_after_save)
  with il ni show ?thesis
    unfolding e_def by blast
qed

theorem remote_add_without_branch_resets_main_witness:
  "loadConfig ex_env None (fs ex_state) = Some ex_config
   \<and> branch ([ex_origin, ex_staging] ! 1) = ''dev''
   \<and> (\<exists>i<length [ex_origin, ex_staging]. name ([ex_origin, ex_staging] ! i) = ''staging''
      \<and> fst (remote ex_env ''add'' [''staging'', ''https://y/repo.git''] ex_state) = Returned
      \<and> fs_readFile
            (fs (snd (remote ex_env ''add'' [''staging'', ''https://y/repo.git''] ex_state)))
            (configPath ex_env None)
          = Inr (yaml_stringify ex_env
                  (ex_config\<lparr>remotes := Some ([ex_origin, ex_staging]
                     [i := \<lparr>name = ''staging'', url = ''https://y/repo.git'',
                             branch = ''main''\<rparr>])\<rparr>)))"
proof -
  have h1: "loadConfig ex_env None (fs ex_state) = Some ex_config"
    by (simp add: ex_loaded)
  have h2: "''staging'' \<noteq> []" and h3: "''https://y/repo.git'' \<noteq> []"
    by simp_all
  have h4: "[ex_origin, ex_staging] = (case remotes ex_config of None \<Rightarrow> [] | Some xs \<Rightarrow> xs)"
    by (simp add: ex_remotes)
  have h5: "''staging'' \<in> name ` set [ex_origin, ex_staging]"
    by (simp add: ex_staging_def)
  have b: "branch ([ex_origin, ex_staging] ! 1) = ''dev''"
    by (simp add: ex_staging_def)
  from remote_add_without_branch_resets_main[OF h1 h2 h3 h4 h5] h1 b
  show ?thesis by blast
qed

section \<open>Push\<close>

lemma push_all_dry:
  "push_all env True t rs s =
     s\<lparr>trace := trace s @
        concat (map (\<lambda>r. [Print (PushingTo (name r) (branch r)), Print (PushedTo (name r))]) rs)\<rparr>"
  by (induction rs arbitrary: s) (simp_all add: emit_def)

lemma run_trace: "trace (snd (run env c s)) = trace s @ [Exec c (fst (run env c s))]"
  by (simp add: run_def split: prod.splits)

lemma push_all_live:
  "\<exists>results. length results = length rs \<and>
     trace (push_all env False t rs s) = trace s @
       concat (map (\<lambda>(r, res). [Print (PushingTo (name r) (branch r)),
                                 Exec (git_push t (url r) (branch r)) res,
                                 push_report r res]) (zip rs results))"
proof (induction rs arbitrary: s)
  case Nil
  then show ?case by simp
next
  case (Cons r rs)
  define s1 where "s1 = emit (Print (PushingTo (name r) (branch r))) s"
  obtain res s2 where rn: "run env (git_push t (url r) (branch r)) s1 = (res, s2)"
    by (cases "run env (git_push t (url r) (branch r)) s1")
  have tr2: "trace s2 = trace s @ [Print (PushingTo (name r) (branch r)),
                                   Exec (git_push t (url r) (branch r)) res]"
    using run_trace[of env "git_push t (url r) (branch r)" s1] rn
    by (simp add: s1_def emit_def)
  define s3 where "s3 = emit (push_report r res) s2"
  have step: "push_all env False t (r # rs) s = push_all env False t rs s3"
    using rn by (cases res) (simp_all add: s1_def s3_def push_report_def)
  from Cons.IH[of s3] obtain results where len: "length results = length rs"
    and tr: "trace (push_all env False t rs s3) = trace s3 @
       concat (map (\<lambda>(r, res). [Print (PushingTo (name r) (branch r)),
                                 Exec (git_push t (url r) (branch r)) res,
                                 push_report r res]) (zip rs results))"
    by blast
  have "length (res # results) = length (r # rs)"
    using len by simp
  moreover have "trace (push_all env False t (r # rs) s) = trace s @
       concat (map (\<lambda>(r, res). [Print (PushingTo (name r) (branch r)),
                                 Exec (git_push t (url r) (branch r)) res,
                                 push_report r res]) (zip (r # rs) (res # results)))"
    using step tr tr2 by (simp add: s3_def emit_def)
  ultimately show ?case by blast
qed

lemma commands_run_push_reports:
  "length results = length rs \<Longrightarrow>
   commands_run (concat (map (\<lambda>(r, res). [Print (PushingTo (name r) (branch r)),
                                 Exec (git_push t (url r) (branch r)) res,
                                 push_report r res]) (zip rs results)))
     = map (\<lambda>r. git_push t (url r) (branch r)) rs"
proof (induction rs arbitrary: results)
  case Nil
  then show ?case by simp
next
  case (Cons r rs)
  then obtain res rest where "results = res # rest" "length rest = length rs"
    by (cases results) auto
  with Cons.IH[of rest] show ?case
    by (cases res) (simp_all add: push_report_def)
qed

lemma push_all_mode:
  assumes "loadConfig env None (fs s) = Some config" "remotes config = Some rs" "rs \<noteq> []"
    "truthy (opt_chain options all_opt)"
  shows "push env options s =
     (Returned, push_all env (truthy (opt_chain options dryRun)) (target_repo config) rs
                  (emit (Print PushingAll) s))"
  using assms by (cases rs) (simp_all add: push_def)

lemma push_single_mode:
  assumes "loadConfig env None (fs s) = Some config" "remotes config = Some rs" "rs \<noteq> []"
    "\<not> truthy (opt_chain options all_opt)"
  shows "push env options s = push_one env options config rs s"
  using assms by (cases rs) (simp_all add: push_def)

lemma find_None_names: "find (\<lambda>r. name r = n) rs = None \<longleftrightarrow> n \<notin> name ` set rs"
  by (auto simp: find_None_iff)

lemma push_one_dry:
  assumes "truthy (opt_chain options dryRun)"
    and "find (\<lambda>r. name r = remoteName options config) rs = Some r"
  shows "push_one env options config rs s =
     (Returned, s\<lparr>trace := trace s @
        [Print (PushingTo (remoteName options config)
                  (js_or_else (opt_chain options branch_opt) (branch r))),
         Print (DryRunWouldPush (url r)
                  (js_or_else (opt_chain options branch_opt) (branch r)))]\<rparr>)"
  using assms by (simp add: push_one_def emit_def Let_def)

lemma push_one_live:
  assumes "\<not> truthy (opt_chain options dryRun)"
    and "find (\<lambda>r. name r = remoteName options config) rs = Some r"
  shows "\<exists>res. trace (snd (push_one env options config rs s)) = trace s @
        [Print (PushingTo (remoteName options config)
                  (js_or_else (opt_chain options branch_opt) (branch r))),
         Exec (git_push (target_repo config) (url r)
                  (js_or_else (opt_chain options branch_opt) (branch r))) res,
         (case res of ProcOk out \<Rightarrow> Print (PushedTo (remoteName options config))
                    | ProcErr sig msg \<Rightarrow> PrintErr (FailedPush msg))]
      \<and> fst (push_one env options config rs s)
          = (case res of ProcOk out \<Rightarrow> Returned | ProcErr sig msg \<Rightarrow> Exited 1)"
proof -
  define b where "b = js_or_else (opt_chain options branch_opt) (branch r)"
  define s1 where "s1 = emit (Print (PushingTo (remoteName options config) b)) s"
  obtain res s2 where rn: "run env (git_push (target_repo config) (url r) b) s1 = (res, s2)"
    by (cases "run env (git_push (target_repo config) (url r) b) s1")
  have tr2: "trace s2 = trace s @ [Print (PushingTo (remoteName options config) b),
                                   Exec (git_push (target_repo config) (url r) b) res]"
    using run_trace[of env "git_push (target_repo config) (url r) b" s1] rn
    by (simp add: s1_def emit_def)
  have step: "push_one env options config rs s =
      (case res of
         ProcOk out \<Rightarrow> (Returned, emit (Print (PushedTo (remoteName options config))) s2)
       | ProcErr sig msg \<Rightarrow> (Exited 1, emit (PrintErr (FailedPush msg)) s2))"
    using assms rn by (simp add: push_one_def Let_def s1_def b_def)
  show ?thesis
    unfolding b_def[symmetric]
    by (intro exI[of _ res]) (cases res; simp add: step tr2 emit_def)
qed

lemma push_one_missing:
  assumes "remoteName options config \<notin> name ` set rs"
  shows "push_one env options config rs s =
     (Exited 1, emit (PrintErr (RemoteNotFound (remoteName options config))) s)"
  using assms by (simp add: push_one_def find_None_names[symmetric])

lemma remoteName_dryRun [simp]:
  "remoteName (Some (opts\<lparr>dryRun := d\<rparr>)) config = remoteName (Some opts) config"
  by (simp add: remoteName_def opt_chain_def)

text \<open>
  Claim C1. Push in all-remotes mode, on a configuration with remotes \<open>rs\<close> (not empty):
  the command returns, so the process ends with status 0, whatever the pushes did.
  When the push is live, the trace is, for every remote in registry order, the
  announcement, the \<^verbatim>\<open>git push\<close> to that remote's URL and branch with its result, and
  the report for that remote alone: success when its push succeeded, the failure with
  its message when it failed. So all the remotes are attempted, in order, whatever
  failed before. (With the dry-run flag the loop runs the same way without starting
  \<^verbatim>\<open>git\<close>; that is claim C2.)
\<close>

theorem push_all_continues_after_failure:
  assumes loaded: "loadConfig env None (fs s) = Some config"
    and rs: "remotes config = Some rs" "rs \<noteq> []"
    and all: "truthy (opt_chain options all_opt)"
  shows "fst (push env options s) = Returned
     \<and> exit_status (fst (push env options s)) = 0
     \<and> (\<not> truthy (opt_chain options dryRun) \<longrightarrow>
          (\<exists>results. length results = length rs
             \<and> trace (snd (push env options s)) = trace s @ Print PushingAll #
                 concat (map (\<lambda>(r, res). [Print (PushingTo (name r) (branch r)),
                                 Exec (git_push (target_repo config) (url r) (branch r)) res,
                                 push_report r res]) (zip rs results)))
          \<and> commands_run (trace (snd (push env options s))) = commands_run (trace s) @
                map (\<lambda>r. git_push (target_repo config) (url r) (branch r)) rs)"
proof -
  note eq = push_all_mode[OF loaded rs all]
  have ret: "fst (push env options s) = Returned"
    by (simp add: eq)
  have live: "(\<exists>results. length results = length rs
             \<and> trace (snd (push env options s)) = trace s @ Print PushingAll #
                 concat (map (\<lambda>(r, res). [Print (PushingTo (name r) (branch r)),
                                 Exec (git_push (target_repo config) (url r) (branch r)) res,
                                 push_report r res]) (zip rs results)))
          \<and> commands_run (trace (snd (push env options s))) = commands_run (trace s) @
                map (\<lambda>r. git_push (target_repo config) (url r) (branch r)) rs"
    if nd: "\<not> truthy (opt_chain options dryRun)"
  proof -
    from push_all_live[of rs env "target_repo config" "emit (Print PushingAll) s"]
    obtain results where len: "length results = length rs"
      and tr: "trace (snd (push env options s)) = trace s @ Print PushingAll #
                 concat (map (\<lambda>(r, res). [Print (PushingTo (name r) (branch r)),
                                 Exec (git_push (target_repo config) (url r) (branch r)) res,
                                 push_report r res]) (zip rs results))"
      using nd by (auto simp: eq emit_def)
    have "commands_run (trace (snd (push env options s))) = commands_run (trace s) @
                map (\<lambda>r. git_push (target_repo config) (url r) (branch r)) rs"
      by (simp add: tr commands_run_append commands_run_push_reports[OF len])
    with len tr show ?thesis by blast
  qed
  from ret live show ?thesis
    by (simp add: exit_status_def)
qed

theorem push_all_continues_after_failure_witness:
  "loadConfig ex_env None (fs ex_state) = Some ex_config
   \<and> remotes ex_config = Some [ex_origin, ex_staging]
   \<and> truthy (opt_chain (Some ex_push_all) all_opt)
   \<and> exit_status (fst (push ex_env (Some ex_push_all) ex_state)) = 0
   \<and> trace (snd (push ex_env (Some ex_push_all) ex_state))
       = [Print PushingAll,
          Print (PushingTo ''origin'' ''main''),
          Exec (git_push ''../target'' ''https://x/repo.git'' ''main'') (ProcOk []),
          Print (PushedTo ''origin''),
          Print (PushingTo ''staging'' ''dev''),
          Exec (git_push ''../target'' ''https://x/repo2.git'' ''dev'')
            (ProcErr None ''unreachable''),
          PrintErr (FailedPushTo ''staging'' ''unreachable'')]
   \<and> commands_run (trace (snd (push ex_env (Some ex_push_all) ex_state)))
       = [git_push ''../target'' ''https://x/repo.git'' ''main'',
          git_push ''../target'' ''https://x/repo2.git'' ''dev'']"
proof -
  have h1: "loadConfig ex_env None (fs ex_state) = Some ex_config"
    by (simp add: ex_loaded)
  have h2: "remotes ex_config = Some [ex_origin, ex_staging]" "[ex_origin, ex_staging] \<noteq> []"
    by (simp_all add: ex_remotes)
  have h3: "truthy (opt_chain (Some ex_push_all) all_opt)"
    by (simp add: truthy_def opt_chain_def ex_push_all_def)
  have live: "\<not> truthy (opt_chain (Some ex_push_all) dryRun)"
    by (simp add: truthy_def opt_chain_def ex_push_all_def)
  have tr: "trace (snd (push ex_env (Some ex_push_all) ex_state))
       = [Print PushingAll,
          Print (PushingTo ''origin'' ''main''),
          Exec (git_push ''../target'' ''https://x/repo.git'' ''main'') (ProcOk []),
          Print (PushedTo ''origin''),
          Print (PushingTo ''staging'' ''dev''),
          Exec (git_push ''../target'' ''https://x/repo2.git'' ''dev'')
            (ProcErr None ''unreachable''),
          PrintErr (FailedPushTo ''staging'' ''unreachable'')]"
    using live
    by (simp add: push_all_mode[OF h1 h2 h3] run_def emit_def git_push_def
        ex_run_push_origin ex_run_push_staging ex_config_def ex_origin_def ex_staging_def)
  have tgt: "target_repo ex_config = ''../target''"
    by (simp add: ex_config_def)
  from push_all_continues_after_failure[OF h1 h2 h3] live h1 h2 h3 tr tgt
  show ?thesis
    by (simp add: ex_origin_def ex_staging_def exit_status_def)
qed

text \<open>
  Claim C2. Let \<open>dry\<close> and \<open>live\<close> be the same options but for the dry-run flag, on a
  configuration with at least one remote. The dry run starts no subprocess and leaves
  the disk and the world as they are, in both modes. In all-remotes mode it announces
  every remote with its branch and reports success for each, and the live push runs
  \<^verbatim>\<open>git push\<close> to exactly these remotes' URLs and branches, in the same order. In
  single-remote mode it announces the resolved remote and branch and prints the URL
  and branch it would push, and the live push runs \<^verbatim>\<open>git push\<close> to exactly that URL
  and branch; when the resolved name is not registered, both end alike with status 1.
\<close>

theorem push_dry_run_invokes_nothing:
  assumes loaded: "loadConfig env None (fs s) = Some config"
    and rs: "remotes config = Some rs" "rs \<noteq> []"
    and dry: "dry = Some (opts\<lparr>dryRun := Some True\<rparr>)"
    and live: "live = Some (opts\<lparr>dryRun := d\<rparr>)" "d \<noteq> Some True"
  shows "commands_run (trace (snd (push env dry s))) = commands_run (trace s)
     \<and> fs (snd (push env dry s)) = fs s \<and> ext (snd (push env dry s)) = ext s
     \<and> (all_opt opts = Some True \<longrightarrow>
          push env dry s = (Returned, s\<lparr>trace := trace s @ Print PushingAll #
              concat (map (\<lambda>r. [Print (PushingTo (name r) (branch r)),
                                Print (PushedTo (name r))]) rs)\<rparr>)
          \<and> commands_run (trace (snd (push env live s))) = commands_run (trace s) @
                map (\<lambda>r. git_push (target_repo config) (url r) (branch r)) rs)
     \<and> (all_opt opts \<noteq> Some True \<longrightarrow>
          (\<forall>r. find (\<lambda>r. name r = remoteName (Some opts) config) rs = Some r \<longrightarrow>
             push env dry s = (Returned, s\<lparr>trace := trace s @
               [Print (PushingTo (remoteName (Some opts) config)
                         (js_or_else (branch_opt opts) (branch r))),
                Print (DryRunWouldPush (url r) (js_or_else (branch_opt opts) (branch r)))]\<rparr>)
             \<and> commands_run (trace (snd (push env live s))) = commands_run (trace s) @
                  [git_push (target_repo config) (url r)
                     (js_or_else (branch_opt opts) (branch r))])
          \<and> (remoteName (Some opts) config \<notin> name ` set rs \<longrightarrow>
               push env dry s = push env live s \<and> fst (push env dry s) = Exited 1))"
proof -
  have td: "truthy (opt_chain dry dryRun)" and tl: "\<not> truthy (opt_chain live dryRun)"
    using live by (auto simp: dry truthy_def opt_chain_def split: option.splits bool.splits)
  have alld: "truthy (opt_chain dry all_opt) \<longleftrightarrow> all_opt opts = Some True"
    and alll: "truthy (opt_chain live all_opt) \<longleftrightarrow> all_opt opts = Some True"
    by (auto simp: dry live truthy_def opt_chain_def split: option.splits bool.splits)
  have rnd: "remoteName dry config = remoteName (Some opts) config"
    and rnl: "remoteName live config = remoteName (Some opts) config"
    by (simp_all add: dry live)
  have bd: "opt_chain dry branch_opt = branch_opt opts"
    and bl: "opt_chain live branch_opt = branch_opt opts"
    by (simp_all add: dry live opt_chain_def)
  show ?thesis
  proof (cases "all_opt opts = Some True")
    case True
    have pd: "push env dry s = (Returned, s\<lparr>trace := trace s @ Print PushingAll #
              concat (map (\<lambda>r. [Print (PushingTo (name r) (branch r)),
                                Print (PushedTo (name r))]) rs)\<rparr>)"
      using push_all_mode[OF loaded rs, of dry] True alld td
      by (simp add: push_all_dry emit_def)
    have nocmd: "commands_run (concat (map (\<lambda>r. [Print (PushingTo (name r) (branch r)),
                                Print (PushedTo (name r))]) rs)) = []"
      by (induction rs) simp_all
    have pl: "commands_run (trace (snd (push env live s))) = commands_run (trace s) @
                map (\<lambda>r. git_push (target_repo config) (url r) (branch r)) rs"
    proof -
      from push_all_live[of rs env "target_repo config" "emit (Print PushingAll) s"]
      obtain results where len: "length results = length rs"
        and tr: "trace (snd (push env live s)) = trace s @ Print PushingAll #
                 concat (map (\<lambda>(r, res). [Print (PushingTo (name r) (branch r)),
                                 Exec (git_push (target_repo config) (url r) (branch r)) res,
                                 push_report r res]) (zip rs results))"
        using push_all_mode[OF loaded rs, of live] True alll tl by (auto simp: emit_def)
      show ?thesis
        by (simp add: tr commands_run_append commands_run_push_reports[OF len])
    qed
    from True pd pl nocmd show ?thesis
      by (simp add: commands_run_append)
  next
    case False
    have pd: "push env dry s = push_one env dry config rs s"
      using push_single_mode[OF loaded rs, of dry] False alld by simp
    have pl: "push env live s = push_one env live config rs s"
      using push_single_mode[OF loaded rs, of live] False alll by simp
    show ?thesis
    proof (cases "find (\<lambda>r. name r = remoteName (Some opts) config) rs")
      case None
      then have miss: "remoteName (Some opts) config \<notin> name ` set rs"
        by (simp add: find_None_names)
      have "push env dry s = (Exited 1, emit (PrintErr (RemoteNotFound (remoteName (Some opts) config))) s)"
        using push_one_missing[of dry config rs env s] miss by (simp add: pd rnd)
      moreover have "push env live s = (Exited 1, emit (PrintErr (RemoteNotFound (remoteName (Some opts) config))) s)"
        using push_one_missing[of live config rs env s] miss by (simp add: pl rnl)
      ultimately show ?thesis
        using False None miss by (simp add: emit_def commands_run_append)
    next
      case (Some r)
      then have found: "remoteName (Some opts) config \<in> name ` set rs"
        using find_None_names[of "remoteName (Some opts) config" rs] by auto
      have d1: "push env dry s = (Returned, s\<lparr>trace := trace s @
               [Print (PushingTo (remoteName (Some opts) config)
                         (js_or_else (branch_opt opts) (branch r))),
                Print (DryRunWouldPush (url r) (js_or_else (branch_opt opts) (branch r)))]\<rparr>)"
        using push_one_dry[OF td, of config rs r env s] Some by (simp add: pd rnd bd)
      have fl: "find (\<lambda>r. name r = remoteName live config) rs = Some r"
        using Some by (simp add: rnl)
      from push_one_live[OF tl fl, of env s]
      obtain res where "trace (snd (push_one env live config rs s)) = trace s @
        [Print (PushingTo (remoteName live config)
                  (js_or_else (opt_chain live branch_opt) (branch r))),
         Exec (git_push (target_repo config) (url r)
                  (js_or_else (opt_chain live branch_opt) (branch r))) res,
         (case res of ProcOk out \<Rightarrow> Print (PushedTo (remoteName live config))
                    | ProcErr sig msg \<Rightarrow> PrintErr (FailedPush msg))]"
        by blast
      then have l1: "commands_run (trace (snd (push env live s))) = commands_run (trace s) @
                  [git_push (target_repo config) (url r)
                     (js_or_else (branch_opt opts) (branch r))]"
        by (cases res) (simp_all add: pl bl commands_run_append)
      from False Some found d1 l1 show ?thesis
        by (simp add: commands_run_append)
    qed
  qed
qed

theorem push_dry_run_invokes_nothing_witness:
  "loadConfig ex_env None (fs ex_state) = Some ex_config
   \<and> remotes ex_config = Some [ex_origin, ex_staging]
   \<and> commands_run (trace (snd (push ex_env (Some (ex_push_all\<lparr>dryRun := Some True\<rparr>)) ex_state)))
       = []
   \<and> push ex_env (Some (ex_push_all\<lparr>dryRun := Some True\<rparr>)) ex_state
       = (Returned, ex_state\<lparr>trace :=
            [Print PushingAll,
             Print (PushingTo ''origin'' ''main''), Print (PushedTo ''origin''),
             Print (PushingTo ''staging'' ''dev''), Print (PushedTo ''staging'')]\<rparr>)
   \<and> commands_run (trace (snd (push ex_env (Some (ex_push_all\<lparr>dryRun := None\<rparr>)) ex_state)))
       = [git_push ''../target'' ''https://x/repo.git'' ''main'',
          git_push ''../target'' ''https://x/repo2.git'' ''dev'']"
proof -
  have h1: "loadConfig ex_env None (fs ex_state) = Some ex_config"
    by (simp add: ex_loaded)
  have h2: "remotes ex_config = Some [ex_origin, ex_staging]" "[ex_origin, ex_staging] \<noteq> []"
    by (simp_all add: ex_remotes)
  have h3: "(None :: bool option) \<noteq> Some True"
    by simp
  have a: "all_opt ex_push_all = Some True" "target_repo ex_config = ''../target''"
    by (simp_all add: ex_push_all_def ex_config_def)
  from push_dry_run_invokes_nothing[where opts = ex_push_all and d = None, OF h1 h2 refl refl h3] h1 h2 a
  show ?thesis
    by (simp add: ex_origin_def ex_staging_def)
qed

text \<open>
  Claim C3, as stated, takes the explicit remote option whenever it is given. The
  source resolves the name with \<^verbatim>\<open>||\<close>, for which an empty string counts as missing:
  with the option given as the empty string, a default remote \<open>staging\<close> and no remote
  named by the empty string, the push does not fail; it goes to \<open>staging\<close>.
\<close>

theorem push_empty_remote_option_counterexample:
  "remote_opt ex_push_empty_remote = Some []
   \<and> [] \<notin> name ` set [ex_origin, ex_staging]
   \<and> remotes ex_config_staging = Some [ex_origin, ex_staging]
   \<and> push ex_env (Some ex_push_empty_remote) ex_state_staging
       = (Returned, ex_state_staging\<lparr>trace :=
            [Print (PushingTo ''staging'' ''dev''),
             Print (DryRunWouldPush ''https://x/repo2.git'' ''dev'')]\<rparr>)"
  by (simp add: push_def ex_loaded_staging push_one_def Let_def remoteName_def js_or_def js_or_else_def
      truthy_str_def truthy_def opt_chain_def emit_def ex_config_staging_def ex_config_def
      ex_origin_def ex_staging_def ex_push_empty_remote_def ex_state_staging_def)

text \<open>
  Claim C3, amended. In single-remote mode the name is the explicit remote option if
  it is given and not empty, else the configuration's default remote if it is set and
  not empty, else \<open>origin\<close>. If no remote has that name the command prints the error
  and exits with status 1. Otherwise the branch is the explicit branch option if it
  is given and not empty, else the branch of the remote found; a dry run prints that
  destination, and a live push runs \<^verbatim>\<open>git push\<close> to the remote's URL and that branch.
\<close>

theorem push_single_resolution:
  assumes loaded: "loadConfig env None (fs s) = Some config"
    and rs: "remotes config = Some rs" "rs \<noteq> []"
    and single: "\<not> truthy (opt_chain options all_opt)"
  shows "(\<forall>x. opt_chain options remote_opt = Some x \<and> x \<noteq> [] \<longrightarrow> remoteName options config = x)
    \<and> (\<not> truthy_str (opt_chain options remote_opt) \<longrightarrow>
         (\<forall>d. default_remote config = Some d \<and> d \<noteq> [] \<longrightarrow> remoteName options config = d))
    \<and> (\<not> truthy_str (opt_chain options remote_opt) \<and> \<not> truthy_str (default_remote config) \<longrightarrow>
         remoteName options config = ''origin'')
    \<and> (remoteName options config \<notin> name ` set rs \<longrightarrow>
         push env options s
           = (Exited 1, emit (PrintErr (RemoteNotFound (remoteName options config))) s)
         \<and> exit_status (fst (push env options s)) \<noteq> 0)
    \<and> (\<forall>r. find (\<lambda>r. name r = remoteName options config) rs = Some r \<longrightarrow>
         (\<exists>b. (\<forall>x. opt_chain options branch_opt = Some x \<and> x \<noteq> [] \<longrightarrow> b = x)
            \<and> (\<not> truthy_str (opt_chain options branch_opt) \<longrightarrow> b = branch r)
            \<and> (truthy (opt_chain options dryRun) \<longrightarrow>
                 push env options s = (Returned, s\<lparr>trace := trace s @
                   [Print (PushingTo (remoteName options config) b),
                    Print (DryRunWouldPush (url r) b)]\<rparr>))
            \<and> (\<not> truthy (opt_chain options dryRun) \<longrightarrow>
                 commands_run (trace (snd (push env options s))) = commands_run (trace s) @
                   [git_push (target_repo config) (url r) b])))"
proof -
  note p1 = push_single_mode[OF loaded rs single]
  have A: "\<forall>x. opt_chain options remote_opt = Some x \<and> x \<noteq> [] \<longrightarrow> remoteName options config = x"
    by (simp add: remoteName_def js_or_def js_or_else_def truthy_str_def)
  have B: "\<not> truthy_str (opt_chain options remote_opt) \<longrightarrow>
         (\<forall>d. default_remote config = Some d \<and> d \<noteq> [] \<longrightarrow> remoteName options config = d)"
    by (simp add: remoteName_def js_or_def js_or_else_def)
  have C: "\<not> truthy_str (opt_chain options remote_opt) \<and> \<not> truthy_str (default_remote config) \<longrightarrow>
         remoteName options config = ''origin''"
    by (auto simp: remoteName_def js_or_def js_or_else_def truthy_str_def split: option.splits)
  have D: "remoteName options config \<notin> name ` set rs \<longrightarrow>
         push env options s
           = (Exited 1, emit (PrintErr (RemoteNotFound (remoteName options config))) s)
         \<and> exit_status (fst (push env options s)) \<noteq> 0"
    using push_one_missing[of options config rs env s] by (simp add: p1 exit_status_def)
  have E: "\<exists>b. (\<forall>x. opt_chain options branch_opt = Some x \<and> x \<noteq> [] \<longrightarrow> b = x)
            \<and> (\<not> truthy_str (opt_chain options branch_opt) \<longrightarrow> b = branch r)
            \<and> (truthy (opt_chain options dryRun) \<longrightarrow>
                 push env options s = (Returned, s\<lparr>trace := trace s @
                   [Print (PushingTo (remoteName options config) b),
                    Print (DryRunWouldPush (url r) b)]\<rparr>))
            \<and> (\<not> truthy (opt_chain options dryRun) \<longrightarrow>
                 commands_run (trace (snd (push env options s))) = commands_run (trace s) @
                   [git_push (target_repo config) (url r) b])"
    if f: "find (\<lambda>r. name r = remoteName options config) rs = Some r" for r
  proof -
    define b where "b = js_or_else (opt_chain options branch_opt) (branch r)"
    have b1: "\<forall>x. opt_chain options branch_opt = Some x \<and> x \<noteq> [] \<longrightarrow> b = x"
      by (simp add: b_def js_or_else_def)
    have b2: "\<not> truthy_str (opt_chain options branch_opt) \<longrightarrow> b = branch r"
      by (auto simp: b_def js_or_else_def truthy_str_def split: option.splits)
    have d: "push env options s = (Returned, s\<lparr>trace := trace s @
                   [Print (PushingTo (remoteName options config) b),
                    Print (DryRunWouldPush (url r) b)]\<rparr>)"
      if "truthy (opt_chain options dryRun)"
      using push_one_dry[OF that f, of env s] by (simp add: p1 b_def)
    have l: "commands_run (trace (snd (push env options s))) = commands_run (trace s) @
                   [git_push (target_repo config) (url r) b]"
      if "\<not> truthy (opt_chain options dryRun)"
    proof -
      from push_one_live[OF that f, of env s]
      obtain res where "trace (snd (push_one env options config rs s)) = trace s @
        [Print (PushingTo (remoteName options config) b),
         Exec (git_push (target_repo config) (url r) b) res,
         (case res of ProcOk out \<Rightarrow> Print (PushedTo (remoteName options config))
                    | ProcErr sig msg \<Rightarrow> PrintErr (FailedPush msg))]"
        unfolding b_def by blast
      then show ?thesis
        by (cases res) (simp_all add: p1 commands_run_append)
    qed
    from b1 b2 d l show ?thesis by blast
  qed
  from A B C D E show ?thesis by blast
qed

theorem push_single_resolution_witness:
  "loadConfig ex_env None (fs ex_state_staging) = Some ex_config_staging
   \<and> remotes ex_config_staging = Some [ex_origin, ex_staging]
   \<and> remoteName (Some \<lparr>remote_opt = None, branch_opt = Some ''release'', all_opt = None,
                          dryRun = Some True\<rparr>) ex_config_staging = ''staging''
   \<and> push ex_env (Some \<lparr>remote_opt = None, branch_opt = Some ''release'', all_opt = None,
                          dryRun = Some True\<rparr>) ex_state_staging
       = (Returned, ex_state_staging\<lparr>trace :=
            [Print (PushingTo ''staging'' ''release''),
             Print (DryRunWouldPush ''https://x/repo2.git'' ''release'')]\<rparr>)
   \<and> exit_status (fst (push ex_env (Some \<lparr>remote_opt = Some ''backup'', branch_opt = None,
                                            all_opt = None, dryRun = None\<rparr>) ex_state_staging))
       \<noteq> 0"
proof -
  define o1 where "o1 = \<lparr>remote_opt = None, branch_opt = Some ''release'', all_opt = None,
                          dryRun = Some True\<rparr>"
  define o2 where "o2 = \<lparr>remote_opt = Some ''backup'', branch_opt = None,
                          all_opt = None, dryRun = None\<rparr>"
  have h1: "loadConfig ex_env None (fs ex_state_staging) = Some ex_config_staging"
    by (simp add: ex_loaded_staging)
  have h2: "remotes ex_config_staging = Some [ex_origin, ex_staging]"
    "[ex_origin, ex_staging] \<noteq> []"
    by (simp_all add: ex_remotes)
  have s1: "\<not> truthy (opt_chain (Some o1) all_opt)" and s2: "\<not> truthy (opt_chain (Some o2) all_opt)"
    by (simp_all add: truthy_def opt_chain_def o1_def o2_def)
  have f1: "opt_chain (Some o1) remote_opt = None" "opt_chain (Some o1) branch_opt = Some ''release''"
    "truthy (opt_chain (Some o1) dryRun)" "default_remote ex_config_staging = Some ''staging''"
    "opt_chain (Some o2) remote_opt = Some ''backup''"
    by (simp_all add: truthy_def opt_chain_def o1_def o2_def ex_config_staging_def)
  note w1 = push_single_resolution[OF h1 h2 s1]
  note w2 = push_single_resolution[OF h1 h2 s2]
  have n1: "remoteName (Some o1) ex_config_staging = ''staging''"
    using w1 f1 by (simp add: truthy_str_def)
  have fnd: "find (\<lambda>r. name r = remoteName (Some o1) ex_config_staging) [ex_origin, ex_staging]
      = Some ex_staging"
    by (simp add: n1 ex_origin_def ex_staging_def)
  have p1: "push ex_env (Some o1) ex_state_staging
       = (Returned, ex_state_staging\<lparr>trace :=
            [Print (PushingTo ''staging'' ''release''),
             Print (DryRunWouldPush ''https://x/repo2.git'' ''release'')]\<rparr>)"
    using w1 f1 fnd n1 by (auto simp: ex_staging_def)
  have n2: "remoteName (Some o2) ex_config_staging = ''backup''"
    using w2 f1 by simp
  have p2: "exit_status (fst (push ex_env (Some o2) ex_state_staging)) \<noteq> 0"
    using w2 n2 by (simp add: ex_origin_def ex_staging_def exit_status_def)
  from h1 h2 n1 p1 p2 show ?thesis
    unfolding o1_def o2_def by simp
qed

section \<open>Sync and pull\<close>

lemma run_emit_fs:
  "run env c (emit e s) = (res, s1) \<Longrightarrow> execa env c (fs s, ext s) = (res, fs s1, ext s1)"
  by (auto simp: run_def emit_def split: prod.splits)

lemma sync_None:
  "sync env None s =
     (if \<not> fs_access (fs s) (cwd env @ [''.repomirror'', ''sync.sh''])
      then (Exited 1, emit (PrintErr SyncScriptNotFound) s)
      else case run env (Bash (cwd env @ [''.repomirror'', ''sync.sh'']) (cwd env))
                  (emit (Print RunningSync) s) of
             (ProcOk out, s1) \<Rightarrow>
               (Returned, emit HandlersOff (emit (Print SyncCompleted) (emit HandlersOn s1)))
           | (ProcErr sig msg, s1) \<Rightarrow>
               if sig = Some ''SIGINT''
               then (Exited 0, emit (Print SyncStopped) (emit HandlersOff (emit HandlersOn s1)))
               else (Exited 1, emit (PrintErr (SyncFailed msg))
                                (emit HandlersOff (emit HandlersOn s1))))"
  by (simp add: sync_def Let_def opt_chain_def truthy_def split: prod.splits proc_result.splits)

lemma sync_None_no_throw: "fst (sync env None s) \<noteq> Threw m"
  by (simp add: sync_None split: prod.splits proc_result.splits)

lemma syncForever_no_throw: "fst (syncForever env options s) \<noteq> Threw m"
  by (simp add: syncForever_def Let_def split: prod.splits proc_result.splits)

lemma pull_catch_id: "(\<And>m. fst res \<noteq> Threw m) \<Longrightarrow> pull_catch res = res"
  by (cases res; cases "fst res") (auto simp: pull_catch_def)

lemma sync_None_commands:
  "commands_run (trace (snd (sync env None s))) = commands_run (trace s) @
     (if fs_access (fs s) (cwd env @ [''.repomirror'', ''sync.sh''])
      then [Bash (cwd env @ [''.repomirror'', ''sync.sh'']) (cwd env)] else [])"
  by (auto simp: sync_None run_def emit_def commands_run_append
      split: prod.splits proc_result.splits)

lemma syncForever_commands:
  "commands_run (trace (snd (syncForever env options s))) = commands_run (trace s) @
     (if fs_access (fs s) (cwd env @ [''.repomirror'', ''ralph.sh''])
      then [Bash (cwd env @ [''.repomirror'', ''ralph.sh'']) (cwd env)] else [])"
  by (auto simp: syncForever_def Let_def run_def emit_def commands_run_append
      split: prod.splits proc_result.splits)

text \<open>
  Claim C9. For the single-shot and for the continuous sync, when the script is there
  and its subprocess fails: the parent exits with status 0 exactly when the signal
  that ended the subprocess is \<open>SIGINT\<close> (which is what the handlers forward), and
  with status 1 for any other failure.
\<close>

theorem sync_exit_status_after_signal:
  "(fs_access (fs s) (cwd env @ [''.repomirror'', ''sync.sh'']) \<and>
    fst (execa env (Bash (cwd env @ [''.repomirror'', ''sync.sh'']) (cwd env)) (fs s, ext s))
      = ProcErr sig msg \<longrightarrow>
      fst (sync env options s) = Exited (if sig = Some ''SIGINT'' then 0 else 1)
      \<and> (exit_status (fst (sync env options s)) = 0 \<longleftrightarrow> sig = Some ''SIGINT''))
   \<and> (fs_access (fs s) (cwd env @ [''.repomirror'', ''ralph.sh'']) \<and>
    fst (execa env (Bash (cwd env @ [''.repomirror'', ''ralph.sh'']) (cwd env)) (fs s, ext s))
      = ProcErr sig msg \<longrightarrow>
      fst (syncForever env options s) = Exited (if sig = Some ''SIGINT'' then 0 else 1)
      \<and> (exit_status (fst (syncForever env options s)) = 0 \<longleftrightarrow> sig = Some ''SIGINT''))"
  by (auto simp: sync_def syncForever_def Let_def run_def emit_def exit_status_def
      split: prod.splits proc_result.splits)

theorem sync_exit_status_after_signal_witness:
  "fs_access (fs ex_state) (cwd ex_env @ [''.repomirror'', ''sync.sh''])
   \<and> fs_access (fs ex_state) (cwd ex_env @ [''.repomirror'', ''ralph.sh''])
   \<and> fst (sync ex_env None ex_state) = Exited 1
   \<and> fst (syncForever ex_env None ex_state) = Exited 0"
proof -
  have a: "fs_access (fs ex_state) (cwd ex_env @ [''.repomirror'', ''sync.sh''])"
    "fs_access (fs ex_state) (cwd ex_env @ [''.repomirror'', ''ralph.sh''])"
    by (simp_all add: fs_access_def ancestors_ok_def is_dir_def is_file_def ex_env_def
        ex_files_def)
  have r: "fst (execa ex_env (Bash (cwd ex_env @ [''.repomirror'', ''sync.sh'']) (cwd ex_env))
                  (fs ex_state, ext ex_state)) = ProcErr None ''exit code 1''"
    "fst (execa ex_env (Bash (cwd ex_env @ [''.repomirror'', ''ralph.sh'']) (cwd ex_env))
                  (fs ex_state, ext ex_state)) = ProcErr (Some ''SIGINT'') ''interrupted''"
    by (simp_all add: ex_env_def ex_execa_def git_push_def)
  from sync_exit_status_after_signal[where s = ex_state and env = ex_env and sig = None
      and msg = "''exit code 1''" and options = None]
    sync_exit_status_after_signal[where s = ex_state and env = ex_env and sig = "Some ''SIGINT''"
      and msg = "''interrupted''" and options = None] a r
  show ?thesis by simp
qed

text \<open>
  Claim C7. Pull in check mode, whatever \<^verbatim>\<open>auto_sync\<close>, sync-after and source-only
  say: the only subprocesses are \<^verbatim>\<open>git fetch\<close> and, when it succeeds,
  \<^verbatim>\<open>git status -uno\<close> in the source repository. No \<^verbatim>\<open>git pull\<close> and no sync script
  is run, the program itself writes nothing to the disk, and the command returns or
  exits with status 1.
\<close>

theorem pull_check_never_syncs:
  assumes loaded: "loadConfig env None (fs s) = Some config"
    and chk: "truthy (opt_chain options check)"
  shows "(commands_run (trace (snd (pull env options s)))
            = commands_run (trace s) @ [Git [''fetch''] (source_repo config)]
          \<or> commands_run (trace (snd (pull env options s)))
            = commands_run (trace s) @ [Git [''fetch''] (source_repo config),
                                        Git [''status'', ''-uno''] (source_repo config)])
     \<and> fs_calls (trace (snd (pull env options s))) = fs_calls (trace s)
     \<and> (fst (pull env options s) = Returned \<or> fst (pull env options s) = Exited 1)"
  using assms
  by (auto simp: pull_def Let_def run_def emit_def commands_run_append fs_calls_append
      split: prod.splits proc_result.splits)

theorem pull_check_never_syncs_witness:
  "loadConfig ex_env None (fs ex_state) = Some ex_config
   \<and> truthy (opt_chain (Some ex_pull_check) check)
   \<and> truthy (opt_chain (Some ex_pull_check) syncAfter)
   \<and> truthy (auto_sync ex_config)
   \<and> (commands_run (trace (snd (pull ex_env (Some ex_pull_check) ex_state)))
        = [Git [''fetch''] ''./'']
      \<or> commands_run (trace (snd (pull ex_env (Some ex_pull_check) ex_state)))
        = [Git [''fetch''] ''./'', Git [''status'', ''-uno''] ''./''])
   \<and> fs_calls (trace (snd (pull ex_env (Some ex_pull_check) ex_state))) = []"
proof -
  have h1: "loadConfig ex_env None (fs ex_state) = Some ex_config"
    by (simp add: ex_loaded)
  have h2: "truthy (opt_chain (Some ex_pull_check) check)"
    "truthy (opt_chain (Some ex_pull_check) syncAfter)" "truthy (auto_sync ex_config)"
    "source_repo ex_config = ''./''"
    by (simp_all add: truthy_def opt_chain_def ex_pull_check_def ex_config_def)
  from pull_check_never_syncs[OF h1 h2(1)] h1 h2
  show ?thesis by simp
qed

text \<open>
  Claim C8. Pull in apply mode runs \<^verbatim>\<open>git pull\<close> in the source repository. If that
  fails, the command reports it and exits with status 1, and nothing else is run. If
  it succeeds: with source-only the command returns; otherwise with sync-after it
  continues as the continuous sync, and only the continuous script is run, also when
  \<^verbatim>\<open>auto_sync\<close> is true; otherwise with \<^verbatim>\<open>auto_sync\<close> true it continues as the
  single-shot sync; otherwise it returns.
\<close>

theorem pull_apply_chaining:
  assumes loaded: "loadConfig env None (fs s) = Some config"
    and mode: "\<not> truthy (opt_chain options check)"
    and pulled: "run env (Git [''pull''] (source_repo config)) (emit (Print PullingSource) s)
                   = (res, s1)"
    and s2: "s2 = emit (Print SourceUpdated) s1"
  shows "(\<forall>sig msg. res = ProcErr sig msg \<longrightarrow>
            pull env options s = (Exited 1, emit (PrintErr (FailedPull msg)) s1)
            \<and> commands_run (trace (snd (pull env options s)))
                = commands_run (trace s) @ [Git [''pull''] (source_repo config)])
     \<and> (\<forall>out. res = ProcOk out \<longrightarrow>
          (truthy (opt_chain options sourceOnly) \<longrightarrow> pull env options s = (Returned, s2))
        \<and> (\<not> truthy (opt_chain options sourceOnly) \<and> truthy (opt_chain options syncAfter) \<longrightarrow>
             pull env options s = syncForever env None s2
             \<and> commands_run (trace (snd (pull env options s)))
                 = commands_run (trace s) @ Git [''pull''] (source_repo config) #
                   (if fs_access (fs s2) (cwd env @ [''.repomirror'', ''ralph.sh''])
                    then [Bash (cwd env @ [''.repomirror'', ''ralph.sh'']) (cwd env)] else []))
        \<and> (\<not> truthy (opt_chain options sourceOnly) \<and> \<not> truthy (opt_chain options syncAfter)
             \<and> truthy (auto_sync config) \<longrightarrow>
             pull env options s = sync env None s2
             \<and> commands_run (trace (snd (pull env options s)))
                 = commands_run (trace s) @ Git [''pull''] (source_repo config) #
                   (if fs_access (fs s2) (cwd env @ [''.repomirror'', ''sync.sh''])
                    then [Bash (cwd env @ [''.repomirror'', ''sync.sh'']) (cwd env)] else []))
        \<and> (\<not> truthy (opt_chain options sourceOnly) \<and> \<not> truthy (opt_chain options syncAfter)
             \<and> \<not> truthy (auto_sync config) \<longrightarrow>
             pull env options s = (Returned, s2)))"
proof -
  have tr1: "trace s1 = trace s @ [Print PullingSource, Exec (Git [''pull''] (source_repo config)) res]"
    using run_trace[of env "Git [''pull''] (source_repo config)" "emit (Print PullingSource) s"]
      pulled by (simp add: emit_def)
  have c2: "commands_run (trace s2) = commands_run (trace s) @ [Git [''pull''] (source_repo config)]"
    by (simp add: s2 tr1 emit_def commands_run_append)
  have fail: "pull env options s = (Exited 1, emit (PrintErr (FailedPull msg)) s1)
            \<and> commands_run (trace (snd (pull env options s)))
                = commands_run (trace s) @ [Git [''pull''] (source_repo config)]"
    if "res = ProcErr sig msg" for sig msg
    using that loaded mode pulled tr1
    by (simp add: pull_def Let_def emit_def commands_run_append)
  have ok: "pull env options s =
      (if \<not> truthy (opt_chain options sourceOnly)
       then if truthy (opt_chain options syncAfter) then syncForever env None s2
            else if truthy (auto_sync config) then sync env None s2 else (Returned, s2)
       else (Returned, s2))"
    if "res = ProcOk out" for out
    using that loaded mode pulled
    by (simp add: pull_def Let_def s2 pull_catch_id sync_None_no_throw syncForever_no_throw)
  show ?thesis
    using fail ok
    by (auto simp: syncForever_commands sync_None_commands c2)
qed

theorem pull_apply_chaining_witness:
  "loadConfig ex_env None (fs ex_state) = Some ex_config
   \<and> \<not> truthy (opt_chain (Some ex_pull_sync_after) check)
   \<and> truthy (opt_chain (Some ex_pull_sync_after) syncAfter) \<and> truthy (auto_sync ex_config)
   \<and> fst (run ex_env (Git [''pull''] ''./'') (emit (Print PullingSource) ex_state)) = ProcOk []
   \<and> pull ex_env (Some ex_pull_sync_after) ex_state
       = syncForever ex_env None (emit (Print SourceUpdated)
           (snd (run ex_env (Git [''pull''] ''./'') (emit (Print PullingSource) ex_state))))
   \<and> commands_run (trace (snd (pull ex_env (Some ex_pull_sync_after) ex_state)))
       = [Git [''pull''] ''./'', Bash [''work'', ''.repomirror'', ''ralph.sh''] [''work'']]"
proof -
  define s1 where "s1 = snd (run ex_env (Git [''pull''] ''./'') (emit (Print PullingSource) ex_state))"
  have h1: "loadConfig ex_env None (fs ex_state) = Some ex_config"
    by (simp add: ex_loaded)
  have h2: "\<not> truthy (opt_chain (Some ex_pull_sync_after) check)"
    "truthy (opt_chain (Some ex_pull_sync_after) syncAfter)" "truthy (auto_sync ex_config)"
    "\<not> truthy (opt_chain (Some ex_pull_sync_after) sourceOnly)"
    by (simp_all add: truthy_def opt_chain_def ex_pull_sync_after_def ex_config_def)
  have src: "source_repo ex_config = ''./''" "cwd ex_env = [''work'']"
    by (simp_all add: ex_config_def ex_env_def)
  have r: "fst (run ex_env (Git [''pull''] ''./'') (emit (Print PullingSource) ex_state)) = ProcOk []"
    by (simp add: run_def ex_env_def ex_execa_def git_push_def)
  then have h3: "run ex_env (Git [''pull''] (source_repo ex_config))
      (emit (Print PullingSource) ex_state) = (ProcOk [], s1)"
    by (simp add: s1_def src prod_eq_iff)
  have acc: "fs_access (fs (emit (Print SourceUpdated) s1)) [''work'', ''.repomirror'', ''ralph.sh'']"
    by (simp add: s1_def run_def emit_def ex_env_def ex_execa_def git_push_def fs_access_def
        ancestors_ok_def is_dir_def is_file_def ex_files_def)
  from pull_apply_chaining[OF h1 h2(1) h3 refl] h2
  have w: "pull ex_env (Some ex_pull_sync_after) ex_state
       = syncForever ex_env None (emit (Print SourceUpdated) s1)
     \<and> commands_run (trace (snd (pull ex_env (Some ex_pull_sync_after) ex_state)))
       = commands_run (trace ex_state) @ Git [''pull''] (source_repo ex_config) #
           (if fs_access (fs (emit (Print SourceUpdated) s1))
                 (cwd ex_env @ [''.repomirror'', ''ralph.sh''])
            then [Bash (cwd ex_env @ [''.repomirror'', ''ralph.sh'']) (cwd ex_env)] else [])"
    by blast
  from w have p: "pull ex_env (Some ex_pull_sync_after) ex_state
       = syncForever ex_env None (emit (Print SourceUpdated) s1)"
    by (rule conjunct1)
  from conjunct2[OF w] acc
  have c: "commands_run (trace (snd (pull ex_env (Some ex_pull_sync_after) ex_state)))
       = [Git [''pull''] ''./'', Bash [''work'', ''.repomirror'', ''ralph.sh''] [''work'']]"
    by (simp add: src)
  from h1 h2 r p[unfolded s1_def] c show ?thesis
    by blast
qed

end
